theory Spec2Isabelle
  imports Complex_Main "HOL-Library.Sublist"
begin

section \<open>Python values, exceptions and effects\<close>

text \<open>
  The bot of \<^verbatim>\<open>homework.py\<close> handles whatever \<^verbatim>\<open>response.json()\<close> decodes, so
  the values are those of decoded JSON. A dictionary has string keys and is a map.
  A float carries its numeric value (the non-finite floats that Python's decoder also
  accepts are left out: the program only tests a float for truth, where they behave as
  any nonzero one). A Python \<^verbatim>\<open>str\<close> is the byte list of its UTF-8 encoding: the
  program compares strings for equality and searches ASCII substrings only, and both
  agree on code points and on UTF-8 bytes.
\<close>

datatype pyval =
    PNone
  | PBool bool
  | PInt int
  | PFloat rat
  | PStr string
  | PList "pyval list"
  | PDict "string \<Rightarrow> pyval option"

text \<open>
  Exceptions are values. The four built-in classes are the ones the source raises or
  the interpreter raises on its behalf. \<open>TelegramError\<close> stands for
  \<^verbatim>\<open>telegram.error.TelegramError\<close> and every subclass of it, \<open>OtherException\<close>
  for any other subclass of \<^verbatim>\<open>Exception\<close> that a library call raises (named by its
  class). Exceptions outside \<^verbatim>\<open>Exception\<close> (a keyboard interrupt) are not modelled.
\<close>

text \<open>
  Modelled from the spec: the class \<^verbatim>\<open>IncorrectAPIResponse\<close> is imported from the
  module \<^verbatim>\<open>exceptions\<close>, which is not among the sources. The spec has the errors of
  the poller caught at the loop level, so the class is taken as a subclass of
  \<^verbatim>\<open>Exception\<close>; it keeps its constructor arguments, as every exception does.
\<close>

datatype exn =
    TypeError string
  | KeyError string
  | ValueError string
  | AttributeError string
  | IncorrectAPIResponse "exn_arg list"
  | TelegramError string
  | OtherException string
and exn_arg = ArgStr string | ArgExn exn

fun is_TelegramError :: "exn \<Rightarrow> bool" where
  "is_TelegramError (TelegramError _) = True"
| "is_TelegramError _ = False"

datatype level = DEBUG | INFO | ERROR | CRITICAL

text \<open>
  What the program does to the outside world, in order: a call of the logging module,
  the GET request (URL, headers, the \<^verbatim>\<open>from_date\<close> parameter), a call of
  \<^verbatim>\<open>bot.send_message\<close> (chat id, text) and a call of \<^verbatim>\<open>time.sleep\<close>.
\<close>

datatype event =
    Log level string
  | HttpGet string "(string \<times> string) list" pyval
  | BotSend "string option" string
  | Sleep int

fun sends :: "event list \<Rightarrow> string list" where
  "sends [] = []"
| "sends (BotSend _ m # evs) = m # sends evs"
| "sends (_ # evs) = sends evs"

fun requests :: "event list \<Rightarrow> pyval list" where
  "requests [] = []"
| "requests (HttpGet _ _ d # evs) = d # requests evs"
| "requests (_ # evs) = requests evs"

fun sleeps :: "event list \<Rightarrow> int list" where
  "sleeps [] = []"
| "sleeps (Sleep n # evs) = n # sleeps evs"
| "sleeps (_ # evs) = sleeps evs"

subsection \<open>Built-in operations of Python\<close>

fun type_name :: "pyval \<Rightarrow> string" where
  "type_name PNone = ''NoneType''"
| "type_name (PBool _) = ''bool''"
| "type_name (PInt _) = ''int''"
| "type_name (PFloat _) = ''float''"
| "type_name (PStr _) = ''str''"
| "type_name (PList _) = ''list''"
| "type_name (PDict _) = ''dict''"

text \<open>Truth value testing, as \<^verbatim>\<open>or\<close> and \<^verbatim>\<open>if\<close> apply it.\<close>

fun py_truthy :: "pyval \<Rightarrow> bool" where
  "py_truthy PNone = False"
| "py_truthy (PBool b) = b"
| "py_truthy (PInt i) = (i \<noteq> 0)"
| "py_truthy (PFloat x) = (x \<noteq> 0)"
| "py_truthy (PStr s) = (s \<noteq> [])"
| "py_truthy (PList xs) = (xs \<noteq> [])"
| "py_truthy (PDict m) = (m \<noteq> Map.empty)"

text \<open>The texts of the interpreter's own errors, in the wording of CPython 3.\<close>

definition quoted :: "string \<Rightarrow> string" where
  "quoted s = [CHR 0x27] @ s @ [CHR 0x27]"

definition not_iterable :: "pyval \<Rightarrow> exn" where
  "not_iterable v =
     TypeError (''argument of type '' @ quoted (type_name v) @ '' is not iterable'')"

definition no_attribute :: "pyval \<Rightarrow> string \<Rightarrow> exn" where
  "no_attribute v a =
     AttributeError (quoted (type_name v) @ '' object has no attribute '' @ quoted a)"

definition unhashable :: "pyval \<Rightarrow> exn" where
  "unhashable v = TypeError (''unhashable type: '' @ quoted (type_name v))"

text \<open>
  \<^verbatim>\<open>key in obj\<close> for a string key: a key of a dictionary, an element of a list (only
  a string equals a string), a substring of a string; any other value is not iterable.
\<close>

fun is_str :: "string \<Rightarrow> pyval \<Rightarrow> bool" where
  "is_str k (PStr s) = (s = k)"
| "is_str k _ = False"

fun py_in :: "string \<Rightarrow> pyval \<Rightarrow> exn + bool" where
  "py_in k (PDict m) = Inr (m k \<noteq> None)"
| "py_in k (PList xs) = Inr (list_ex (is_str k) xs)"
| "py_in k (PStr s) = Inr (sublist k s)"
| "py_in k v = Inl (not_iterable v)"

text \<open>\<^verbatim>\<open>obj.get(key, default)\<close>: only a dictionary has the method.\<close>

fun py_get :: "pyval \<Rightarrow> string \<Rightarrow> pyval \<Rightarrow> exn + pyval" where
  "py_get (PDict m) k d = Inr (case m k of Some v \<Rightarrow> v | None \<Rightarrow> d)"
| "py_get v k d = Inl (no_attribute v ''get'')"

text \<open>\<^verbatim>\<open>obj[key]\<close> for a string key, and \<^verbatim>\<open>isinstance(obj, dict)\<close>.\<close>

fun py_getitem :: "pyval \<Rightarrow> string \<Rightarrow> exn + pyval" where
  "py_getitem (PDict m) k = (case m k of Some v \<Rightarrow> Inr v | None \<Rightarrow> Inl (KeyError k))"
| "py_getitem (PList xs) k =
     Inl (TypeError ''list indices must be integers or slices, not str'')"
| "py_getitem (PStr s) k = Inl (TypeError ''string indices must be integers'')"
| "py_getitem v k = Inl (TypeError (quoted (type_name v) @ '' object is not subscriptable''))"

fun is_dict :: "pyval \<Rightarrow> bool" where
  "is_dict (PDict _) = True"
| "is_dict _ = False"

fun is_list :: "pyval \<Rightarrow> bool" where
  "is_list (PList _) = True"
| "is_list _ = False"

text \<open>Decimal rendering of an integer, as \<^verbatim>\<open>str\<close> and f-strings produce it.\<close>

fun digits :: "nat \<Rightarrow> string" where
  "digits n =
     (if n < 10 then [''0123456789'' ! n]
      else digits (n div 10) @ [''0123456789'' ! (n mod 10)])"

declare digits.simps [simp del]

definition str_int :: "int \<Rightarrow> string" where
  "str_int i = (if i < 0 then ''-'' @ digits (nat (- i)) else digits (nat i))"

text \<open>
  Rendering to text is where the model takes two parameters. \<open>str_other\<close> is
  \<^verbatim>\<open>str\<close> on a float, a list or a dictionary (the interpreter's \<^verbatim>\<open>repr\<close>
  algorithm). \<open>str_exn\<close> is \<^verbatim>\<open>str\<close> on an exception object: it depends on the
  class, and for \<^verbatim>\<open>IncorrectAPIResponse\<close> on a module that is not among the sources.
\<close>

record runtime =
  str_other :: "pyval \<Rightarrow> string"
  str_exn :: "exn \<Rightarrow> string"

fun py_str :: "runtime \<Rightarrow> pyval \<Rightarrow> string" where
  "py_str rt (PStr s) = s"
| "py_str rt PNone = ''None''"
| "py_str rt (PBool b) = (if b then ''True'' else ''False'')"
| "py_str rt (PInt i) = str_int i"
| "py_str rt v = str_other rt v"

fun str_opt :: "string option \<Rightarrow> string" where
  "str_opt None = ''None''"
| "str_opt (Some s) = s"

section \<open>Module-level constants\<close>

text \<open>The three values read by \<^verbatim>\<open>os.getenv\<close>: \<open>None\<close> when the variable is unset.\<close>

record credentials =
  PRACTICUM_TOKEN :: "string option"
  TELEGRAM_TOKEN :: "string option"
  TELEGRAM_CHAT_ID :: "string option"

definition RETRY_PERIOD :: int where
  "RETRY_PERIOD = 600"

definition ENDPOINT :: string where
  "ENDPOINT = ''https://practicum.yandex.ru/api/user_api/homework_statuses/''"

definition HEADERS :: "credentials \<Rightarrow> (string \<times> string) list" where
  "HEADERS c = [(''Authorization'', ''OAuth '' @ str_opt (PRACTICUM_TOKEN c))]"

text \<open>The three verdict texts and the two Russian message prefixes, as UTF-8 bytes.\<close>

definition verdict_approved :: string where
  "verdict_approved =
    [
     CHR 0xD0, CHR 0xA0, CHR 0xD0, CHR 0xB0, CHR 0xD0, CHR 0xB1, CHR 0xD0, CHR 0xBE,
     CHR 0xD1, CHR 0x82, CHR 0xD0, CHR 0xB0, CHR 0x20, CHR 0xD0, CHR 0xBF, CHR 0xD1,
     CHR 0x80, CHR 0xD0, CHR 0xBE, CHR 0xD0, CHR 0xB2, CHR 0xD0, CHR 0xB5, CHR 0xD1,
     CHR 0x80, CHR 0xD0, CHR 0xB5, CHR 0xD0, CHR 0xBD, CHR 0xD0, CHR 0xB0, CHR 0x3A,
     CHR 0x20, CHR 0xD1, CHR 0x80, CHR 0xD0, CHR 0xB5, CHR 0xD0, CHR 0xB2, CHR 0xD1,
     CHR 0x8C, CHR 0xD1, CHR 0x8E, CHR 0xD0, CHR 0xB5, CHR 0xD1, CHR 0x80, CHR 0xD1,
     CHR 0x83, CHR 0x20, CHR 0xD0, CHR 0xB2, CHR 0xD1, CHR 0x81, CHR 0xD1, CHR 0x91,
     CHR 0x20, CHR 0xD0, CHR 0xBF, CHR 0xD0, CHR 0xBE, CHR 0xD0, CHR 0xBD, CHR 0xD1,
     CHR 0x80, CHR 0xD0, CHR 0xB0, CHR 0xD0, CHR 0xB2, CHR 0xD0, CHR 0xB8, CHR 0xD0,
     CHR 0xBB, CHR 0xD0, CHR 0xBE, CHR 0xD1, CHR 0x81, CHR 0xD1, CHR 0x8C, CHR 0x2E,
     CHR 0x20, CHR 0xD0, CHR 0xA3, CHR 0xD1, CHR 0x80, CHR 0xD0, CHR 0xB0, CHR 0x21]"

definition verdict_reviewing :: string where
  "verdict_reviewing =
    [
     CHR 0xD0, CHR 0xA0, CHR 0xD0, CHR 0xB0, CHR 0xD0, CHR 0xB1, CHR 0xD0, CHR 0xBE,
     CHR 0xD1, CHR 0x82, CHR 0xD0, CHR 0xB0, CHR 0x20, CHR 0xD0, CHR 0xB2, CHR 0xD0,
     CHR 0xB7, CHR 0xD1, CHR 0x8F, CHR 0xD1, CHR 0x82, CHR 0xD0, CHR 0xB0, CHR 0x20,
     CHR 0xD0, CHR 0xBD, CHR 0xD0, CHR 0xB0, CHR 0x20, CHR 0xD0, CHR 0xBF, CHR 0xD1,
     CHR 0x80, CHR 0xD0, CHR 0xBE, CHR 0xD0, CHR 0xB2, CHR 0xD0, CHR 0xB5, CHR 0xD1,
     CHR 0x80, CHR 0xD0, CHR 0xBA, CHR 0xD1, CHR 0x83, CHR 0x20, CHR 0xD1, CHR 0x80,
     CHR 0xD0, CHR 0xB5, CHR 0xD0, CHR 0xB2, CHR 0xD1, CHR 0x8C, CHR 0xD1, CHR 0x8E,
     CHR 0xD0, CHR 0xB5, CHR 0xD1, CHR 0x80, CHR 0xD0, CHR 0xBE, CHR 0xD0, CHR 0xBC,
     CHR 0x2E]"

definition verdict_rejected :: string where
  "verdict_rejected =
    [
     CHR 0xD0, CHR 0xA0, CHR 0xD0, CHR 0xB0, CHR 0xD0, CHR 0xB1, CHR 0xD0, CHR 0xBE,
     CHR 0xD1, CHR 0x82, CHR 0xD0, CHR 0xB0, CHR 0x20, CHR 0xD0, CHR 0xBF, CHR 0xD1,
     CHR 0x80, CHR 0xD0, CHR 0xBE, CHR 0xD0, CHR 0xB2, CHR 0xD0, CHR 0xB5, CHR 0xD1,
     CHR 0x80, CHR 0xD0, CHR 0xB5, CHR 0xD0, CHR 0xBD, CHR 0xD0, CHR 0xB0, CHR 0x3A,
     CHR 0x20, CHR 0xD1, CHR 0x83, CHR 0x20, CHR 0xD1, CHR 0x80, CHR 0xD0, CHR 0xB5,
     CHR 0xD0, CHR 0xB2, CHR 0xD1, CHR 0x8C, CHR 0xD1, CHR 0x8E, CHR 0xD0, CHR 0xB5,
     CHR 0xD1, CHR 0x80, CHR 0xD0, CHR 0xB0, CHR 0x20, CHR 0xD0, CHR 0xB5, CHR 0xD1,
     CHR 0x81, CHR 0xD1, CHR 0x82, CHR 0xD1, CHR 0x8C, CHR 0x20, CHR 0xD0, CHR 0xB7,
     CHR 0xD0, CHR 0xB0, CHR 0xD0, CHR 0xBC, CHR 0xD0, CHR 0xB5, CHR 0xD1, CHR 0x87,
     CHR 0xD0, CHR 0xB0, CHR 0xD0, CHR 0xBD, CHR 0xD0, CHR 0xB8, CHR 0xD1, CHR 0x8F,
     CHR 0x2E]"

definition status_changed :: string where
  "status_changed =
    [
     CHR 0xD0, CHR 0x98, CHR 0xD0, CHR 0xB7, CHR 0xD0, CHR 0xBC, CHR 0xD0, CHR 0xB5,
     CHR 0xD0, CHR 0xBD, CHR 0xD0, CHR 0xB8, CHR 0xD0, CHR 0xBB, CHR 0xD1, CHR 0x81,
     CHR 0xD1, CHR 0x8F, CHR 0x20, CHR 0xD1, CHR 0x81, CHR 0xD1, CHR 0x82, CHR 0xD0,
     CHR 0xB0, CHR 0xD1, CHR 0x82, CHR 0xD1, CHR 0x83, CHR 0xD1, CHR 0x81, CHR 0x20,
     CHR 0xD0, CHR 0xBF, CHR 0xD1, CHR 0x80, CHR 0xD0, CHR 0xBE, CHR 0xD0, CHR 0xB2,
     CHR 0xD0, CHR 0xB5, CHR 0xD1, CHR 0x80, CHR 0xD0, CHR 0xBA, CHR 0xD0, CHR 0xB8,
     CHR 0x20, CHR 0xD1, CHR 0x80, CHR 0xD0, CHR 0xB0, CHR 0xD0, CHR 0xB1, CHR 0xD0,
     CHR 0xBE, CHR 0xD1, CHR 0x82, CHR 0xD1, CHR 0x8B, CHR 0x20]"

definition failure_prefix :: string where
  "failure_prefix =
    [
     CHR 0xD0, CHR 0xA1, CHR 0xD0, CHR 0xB1, CHR 0xD0, CHR 0xBE, CHR 0xD0, CHR 0xB9,
     CHR 0x20, CHR 0xD0, CHR 0xB2, CHR 0x20, CHR 0xD1, CHR 0x80, CHR 0xD0, CHR 0xB0,
     CHR 0xD0, CHR 0xB1, CHR 0xD0, CHR 0xBE, CHR 0xD1, CHR 0x82, CHR 0xD0, CHR 0xB5,
     CHR 0x20, CHR 0xD0, CHR 0xBF, CHR 0xD1, CHR 0x80, CHR 0xD0, CHR 0xBE, CHR 0xD0,
     CHR 0xB3, CHR 0xD1, CHR 0x80, CHR 0xD0, CHR 0xB0, CHR 0xD0, CHR 0xBC, CHR 0xD0,
     CHR 0xBC, CHR 0xD1, CHR 0x8B, CHR 0x3A, CHR 0x20]"

definition HOMEWORK_VERDICTS :: "(string \<times> string) list" where
  "HOMEWORK_VERDICTS =
     [(''approved'', verdict_approved),
      (''reviewing'', verdict_reviewing),
      (''rejected'', verdict_rejected)]"

text \<open>
  \<^verbatim>\<open>HOMEWORK_VERDICTS.get(key)\<close>: a list or a dictionary cannot be hashed, and no
  other value that is not a string equals one of the three keys.
\<close>

fun verdicts_get :: "pyval \<Rightarrow> exn + string option" where
  "verdicts_get (PStr s) = Inr (map_of HOMEWORK_VERDICTS s)"
| "verdicts_get (PList xs) = Inl (unhashable (PList xs))"
| "verdicts_get (PDict m) = Inl (unhashable (PDict m))"
| "verdicts_get v = Inr None"

section \<open>The functions of \<^verbatim>\<open>homework.py\<close>\<close>

text \<open>Every function returns the events it caused, in order, with its result.\<close>

fun opt_truthy :: "string option \<Rightarrow> bool" where
  "opt_truthy None = False"
| "opt_truthy (Some s) = (s \<noteq> [])"

definition check_tokens :: "credentials \<Rightarrow> event list \<times> bool" where
  "check_tokens c =
     ([Log INFO ''check for all tokens availability''],
      list_all opt_truthy [PRACTICUM_TOKEN c, TELEGRAM_TOKEN c, TELEGRAM_CHAT_ID c])"

text \<open>
  \<^verbatim>\<open>send_message\<close>: the answer of the bot client to the call is an input. Only a
  \<^verbatim>\<open>TelegramError\<close> is caught; the second component is the exception that leaves
  the function, if any.
\<close>

datatype send_outcome = Delivered | SendRaises exn

definition send_message ::
  "runtime \<Rightarrow> credentials \<Rightarrow> send_outcome \<Rightarrow> string \<Rightarrow> event list \<times> exn option" where
  "send_message rt c answer message =
     (let attempt = [Log DEBUG ''Send of status into telegram'',
                     BotSend (TELEGRAM_CHAT_ID c) message]
      in case answer of
           Delivered \<Rightarrow> (attempt @ [Log INFO message], None)
         | SendRaises e \<Rightarrow>
             if is_TelegramError e
             then (attempt @
                   [Log ERROR (''something wrong with message sending to telegram: '' @
                               str_exn rt e)], None)
             else (attempt, Some e))"

text \<open>
  \<^verbatim>\<open>get_api_answer\<close>: what \<^verbatim>\<open>requests.get\<close> does is an input, and so is what
  \<^verbatim>\<open>response.json()\<close> does with the body. The \<^verbatim>\<open>raise\<close> for a status other than
  200 stands inside the \<^verbatim>\<open>try\<close> block, so the handler below it catches that
  exception too and wraps it as it wraps every other one.
\<close>

record http_response =
  status_code :: int
  reason :: string
  body_text :: string
  json :: "exn + pyval"

datatype http_outcome = RequestRaises exn | Responds http_response

text \<open>
  The inputs of one iteration of the polling loop: the two clock readings
  (\<^verbatim>\<open>time.time_ns()\<close> and \<^verbatim>\<open>int(time.time())\<close>), the outcome of the request, and
  the answers of the bot client to the send of the \<^verbatim>\<open>try\<close> block and to the send
  of the \<^verbatim>\<open>except\<close> block.
\<close>

record world =
  clock_ns :: int
  http :: http_outcome
  clock_s :: int
  send_try :: send_outcome
  send_except :: send_outcome

definition begin_request :: string where
  "begin_request = ''Begin request to API. Request:{url}, {headers}, {params}.''"

definition not_200 :: "http_response \<Rightarrow> string" where
  "not_200 r =
     ''API response does not return 200.'' @
     ''Response code: '' @ str_int (status_code r) @ ''.'' @
     ''Reason: '' @ reason r @ ''.'' @
     ''Text: '' @ body_text r @ ''.''"

definition request_body :: "http_outcome \<Rightarrow> exn + pyval" where
  "request_body h =
     (case h of
        RequestRaises error \<Rightarrow> Inl error
      | Responds response \<Rightarrow>
          if status_code response \<noteq> 200
          then Inl (IncorrectAPIResponse [ArgStr (not_200 response)])
          else json response)"

definition get_api_answer ::
  "credentials \<Rightarrow> pyval \<Rightarrow> world \<Rightarrow> event list \<times> (exn + pyval)" where
  "get_api_answer c load_arg w =
     (let timeline = (if py_truthy load_arg then load_arg else PInt (clock_ns w));
          message = begin_request;
          events = [Log INFO message,
                    HttpGet ENDPOINT (HEADERS c) timeline,
                    Log INFO ''got API response. Request: {url}, {headers}, {params}'']
      in case request_body (http w) of
           Inl error \<Rightarrow> (events, Inl (IncorrectAPIResponse [ArgStr message, ArgExn error]))
         | Inr v \<Rightarrow> (events, Inr v))"

definition check_response :: "pyval \<Rightarrow> exn + pyval" where
  \<open>check_response response =
     (case py_in ''homeworks'' response of
        Inl e \<Rightarrow> Inl e
      | Inr False \<Rightarrow> Inl (TypeError ''Response does not contain "homeworks" key'')
      | Inr True \<Rightarrow>
          if \<not> is_dict response then Inl (TypeError ''Response is not a dictionary'')
          else
            (case py_getitem response ''homeworks'' of
               Inl e \<Rightarrow> Inl e
             | Inr homeworks \<Rightarrow>
                 if \<not> is_list homeworks
                 then Inl (TypeError ''"homeworks" value is not a list'')
                 else
                   (case py_in ''current_date'' response of
                      Inl e \<Rightarrow> Inl e
                    | Inr False \<Rightarrow>
                        Inl (TypeError ''Response does not contain "current_date" key'')
                    | Inr True \<Rightarrow> py_getitem response ''homeworks'')))\<close>

definition parse_status :: "runtime \<Rightarrow> pyval \<Rightarrow> exn + string" where
  \<open>parse_status rt homework =
     (case py_in ''homework_name'' homework of
        Inl e \<Rightarrow> Inl e
      | Inr False \<Rightarrow> Inl (KeyError ''No key for homework_name in API response'')
      | Inr True \<Rightarrow>
          (case py_get homework ''status'' PNone of
             Inl e \<Rightarrow> Inl e
           | Inr status \<Rightarrow>
               (case verdicts_get status of
                  Inl e \<Rightarrow> Inl e
                | Inr None \<Rightarrow> Inl (ValueError ''Invalid status value in API response'')
                | Inr (Some verdict) \<Rightarrow>
                    (case py_getitem homework ''homework_name'' of
                       Inl e \<Rightarrow> Inl e
                     | Inr homework_name \<Rightarrow>
                         Inr (status_changed @ ''"'' @ py_str rt homework_name @
                              ''". '' @ verdict)))))\<close>

subsection \<open>The polling loop\<close>

text \<open>
  The two variables of \<^verbatim>\<open>main\<close> that live across iterations. \<open>load\<close> is whatever
  the last response held under \<^verbatim>\<open>current_date\<close>, so it is a value, not an integer.
\<close>

record loop_state =
  load :: pyval
  prev_msg :: string

text \<open>
  The \<^verbatim>\<open>try\<close> block up to the assignment of \<^verbatim>\<open>message\<close>: fetch, update of the
  cursor, validation, translation of the first homework. An assignment made before a
  later statement raises stays made, so the state is returned on both paths.
\<close>

definition poll ::
  "runtime \<Rightarrow> credentials \<Rightarrow> world \<Rightarrow> loop_state \<Rightarrow>
     event list \<times> loop_state \<times> (exn + string)" where
  "poll rt c w st =
     (case get_api_answer c (load st) w of
        (evs, Inl e) \<Rightarrow> (evs, st, Inl e)
      | (evs, Inr response) \<Rightarrow>
          (case py_get response ''current_date'' (PInt (clock_s w)) of
             Inl e \<Rightarrow> (evs, st, Inl e)
           | Inr d \<Rightarrow>
               let st1 = st\<lparr>load := d\<rparr> in
               (case check_response response of
                  Inl e \<Rightarrow> (evs, st1, Inl e)
                | Inr homeworks \<Rightarrow>
                    (case homeworks of
                       PList (homework # _) \<Rightarrow> (evs, st1, parse_status rt homework)
                     | _ \<Rightarrow> (evs, st1, Inr ''No new status'')))))"

text \<open>The rest of the \<^verbatim>\<open>try\<close> block: send the message unless it repeats the last one.\<close>

definition try_block ::
  "runtime \<Rightarrow> credentials \<Rightarrow> world \<Rightarrow> loop_state \<Rightarrow>
     event list \<times> loop_state \<times> exn option" where
  "try_block rt c w st =
     (case poll rt c w st of
        (evs, st1, Inl e) \<Rightarrow> (evs, st1, Some e)
      | (evs, st1, Inr message) \<Rightarrow>
          if message \<noteq> prev_msg st1 then
            (case send_message rt c (send_try w) message of
               (evs2, Some e) \<Rightarrow> (evs @ evs2, st1, Some e)
             | (evs2, None) \<Rightarrow> (evs @ evs2, st1\<lparr>prev_msg := message\<rparr>, None))
          else (evs @ [Log INFO message], st1, None))"

definition failure_message :: "runtime \<Rightarrow> exn \<Rightarrow> string" where
  "failure_message rt error = failure_prefix @ str_exn rt error"

text \<open>
  One pass through the body of \<^verbatim>\<open>while True\<close>: the \<^verbatim>\<open>try\<close> block, the handler of
  \<^verbatim>\<open>except Exception\<close>, and the \<^verbatim>\<open>finally\<close> clause, which sleeps on every path,
  also when the handler itself raises. The last component is the exception that leaves
  the loop, if any.
\<close>

definition iteration ::
  "runtime \<Rightarrow> credentials \<Rightarrow> world \<Rightarrow> loop_state \<Rightarrow>
     event list \<times> loop_state \<times> exn option" where
  "iteration rt c w st =
     (case try_block rt c w st of
        (evs, st1, None) \<Rightarrow> (evs @ [Sleep RETRY_PERIOD], st1, None)
      | (evs, st1, Some error) \<Rightarrow>
          let message = failure_message rt error;
              logged = evs @ [Log ERROR message]
          in if message \<noteq> prev_msg st1 then
               (case send_message rt c (send_except w) message of
                  (evs2, Some e) \<Rightarrow> (logged @ evs2 @ [Sleep RETRY_PERIOD], st1, Some e)
                | (evs2, None) \<Rightarrow>
                    (logged @ evs2 @ [Sleep RETRY_PERIOD], st1\<lparr>prev_msg := message\<rparr>, None))
             else (logged @ [Sleep RETRY_PERIOD], st1, None))"

text \<open>
  The loop has no exit of its own, so it is run on the inputs of its first iterations,
  one \<open>world\<close> each. \<open>None\<close> in the last component says that the loop is still
  running after them, \<open>Some e\<close> that the exception \<open>e\<close> ended it (and the inputs
  after that iteration were not consumed).
\<close>

fun main_loop ::
  "runtime \<Rightarrow> credentials \<Rightarrow> world list \<Rightarrow> loop_state \<Rightarrow>
     event list \<times> loop_state \<times> exn option" where
  "main_loop rt c [] st = ([], st, None)"
| "main_loop rt c (w # ws) st =
     (case iteration rt c w st of
        (evs, st1, Some e) \<Rightarrow> (evs, st1, Some e)
      | (evs, st1, None) \<Rightarrow>
          (case main_loop rt c ws st1 of (evs2, st2, r) \<Rightarrow> (evs @ evs2, st2, r)))"

text \<open>
  The start of \<^verbatim>\<open>main\<close>, before the loop. \<^verbatim>\<open>sys.exit\<close> with a string prints it and
  ends the process with status 1, as an exception that nobody catches does. The
  constructor \<^verbatim>\<open>telegram.Bot\<close> is called after the check of the credentials and
  before the clock is read; whether it returns the bot or raises is an input, and no
  handler stands around it.
\<close>

datatype bot_outcome = Constructed | ConstructRaises exn

datatype ending = SystemExit string | Uncaught exn

fun exit_status :: "ending \<Rightarrow> int" where
  "exit_status (SystemExit message) = 1"
| "exit_status (Uncaught e) = 1"

definition start_message :: string where
  "start_message = ''Bot starts operation''"

definition startup ::
  "runtime \<Rightarrow> credentials \<Rightarrow> bot_outcome \<Rightarrow> int \<Rightarrow> send_outcome \<Rightarrow>
     event list \<times> (ending + loop_state)" where
  "startup rt c bot_made now answer =
     (case check_tokens c of
        (evs, False) \<Rightarrow>
          let message = ''No token. Bot operation stopped!''
          in (evs @ [Log CRITICAL message], Inl (SystemExit message))
      | (evs, True) \<Rightarrow>
          (case bot_made of
             ConstructRaises e \<Rightarrow> (evs, Inl (Uncaught e))
           | Constructed \<Rightarrow>
               let cursor = PInt now in
               (case send_message rt c answer start_message of
                  (evs2, Some e) \<Rightarrow> (evs @ evs2, Inl (Uncaught e))
                | (evs2, None) \<Rightarrow>
                    (evs @ evs2 @ [Log INFO start_message],
                     Inr \<lparr>load = cursor, prev_msg = []\<rparr>))))"

definition main ::
  "runtime \<Rightarrow> credentials \<Rightarrow> bot_outcome \<Rightarrow> int \<Rightarrow> send_outcome \<Rightarrow> world list \<Rightarrow>
     event list \<times> (ending + loop_state)" where
  "main rt c bot_made now answer ws =
     (case startup rt c bot_made now answer of
        (evs, Inl stop) \<Rightarrow> (evs, Inl stop)
      | (evs, Inr st) \<Rightarrow>
          (case main_loop rt c ws st of
             (evs2, st2, Some e) \<Rightarrow> (evs @ evs2, Inl (Uncaught e))
           | (evs2, st2, None) \<Rightarrow> (evs @ evs2, Inr st2)))"

section \<open>Notions used in the statements\<close>

text \<open>An answer of the bot client that \<^verbatim>\<open>send_message\<close> absorbs: delivery, or a
  \<^verbatim>\<open>TelegramError\<close>.\<close>

fun handled :: "send_outcome \<Rightarrow> bool" where
  "handled Delivered = True"
| "handled (SendRaises e) = is_TelegramError e"

text \<open>
  The message an iteration arrives at: the text assigned to \<^verbatim>\<open>message\<close> in the
  \<^verbatim>\<open>try\<close> block, or the diagnostic built by the handler when the block raised
  before that.
\<close>

definition produced :: "runtime \<Rightarrow> credentials \<Rightarrow> world \<Rightarrow> loop_state \<Rightarrow> string" where
  "produced rt c w st =
     (case snd (snd (poll rt c w st)) of
        Inr message \<Rightarrow> message
      | Inl error \<Rightarrow> failure_message rt error)"

text \<open>
  The validator as the specification words it, with its four checks in the order of
  the specification: not a mapping, no key \<^verbatim>\<open>homeworks\<close>, \<^verbatim>\<open>homeworks\<close> not a
  sequence, no key \<^verbatim>\<open>current_date\<close>. It is compared with \<open>check_response\<close> below.
\<close>

definition check_response_spec :: "pyval \<Rightarrow> exn + pyval" where
  \<open>check_response_spec response =
     (case response of
        PDict m \<Rightarrow>
          (case m ''homeworks'' of
             None \<Rightarrow> Inl (TypeError ''Response does not contain "homeworks" key'')
           | Some homeworks \<Rightarrow>
               if \<not> is_list homeworks
               then Inl (TypeError ''"homeworks" value is not a list'')
               else if m ''current_date'' = None
               then Inl (TypeError ''Response does not contain "current_date" key'')
               else Inr homeworks)
      | _ \<Rightarrow> Inl (TypeError ''Response is not a dictionary''))\<close>

text \<open>
  The value sent as \<^verbatim>\<open>from_date\<close> for a cursor (line 66 of the source), and the
  cursor that the loop holds after a fetch has returned \<open>v\<close>: the assignment of line
  153 when \<open>v\<close> is a dictionary, the old cursor when it is not, since then
  \<^verbatim>\<open>response.get\<close> raises before the assignment.
\<close>

definition timeline :: "pyval \<Rightarrow> world \<Rightarrow> pyval" where
  "timeline cursor w = (if py_truthy cursor then cursor else PInt (clock_ns w))"

definition next_cursor :: "pyval \<Rightarrow> world \<Rightarrow> loop_state \<Rightarrow> pyval" where
  "next_cursor v w st =
     (case v of
        PDict m \<Rightarrow> (case m ''current_date'' of Some d \<Rightarrow> d | None \<Rightarrow> PInt (clock_s w))
      | _ \<Rightarrow> load st)"

subsection \<open>Concrete inputs for the examples\<close>

text \<open>
  The theorems hold for every runtime. The examples need one: it renders an exception
  by its message and a float or container by the name of its type.
\<close>

fun example_str_exn :: "exn \<Rightarrow> string" where
  "example_str_exn (TypeError s) = s"
| "example_str_exn (KeyError s) = quoted s"
| "example_str_exn (ValueError s) = s"
| "example_str_exn (AttributeError s) = s"
| "example_str_exn (IncorrectAPIResponse args) = ''IncorrectAPIResponse''"
| "example_str_exn (TelegramError s) = s"
| "example_str_exn (OtherException s) = s"

definition example_runtime :: runtime where
  "example_runtime = \<lparr>str_other = type_name, str_exn = example_str_exn\<rparr>"

definition example_credentials :: credentials where
  "example_credentials =
     \<lparr>PRACTICUM_TOKEN = Some ''practicum'',
      TELEGRAM_TOKEN = Some ''telegram'',
      TELEGRAM_CHAT_ID = Some ''42''\<rparr>"

definition ok_response :: "pyval \<Rightarrow> http_outcome" where
  "ok_response v = Responds \<lparr>status_code = 200, reason = ''OK'', body_text = [], json = Inr v\<rparr>"

definition unavailable :: http_outcome where
  "unavailable =
     Responds \<lparr>status_code = 503, reason = ''Service Unavailable'', body_text = ''down'',
               json = Inl (OtherException ''JSONDecodeError'')\<rparr>"

definition quiet_world :: "http_outcome \<Rightarrow> world" where
  "quiet_world h =
     \<lparr>clock_ns = 1700000000000000000, http = h, clock_s = 1700000000,
      send_try = Delivered, send_except = Delivered\<rparr>"

definition homework_hw1 :: pyval where
  "homework_hw1 = PDict [''homework_name'' \<mapsto> PStr ''hw1'', ''status'' \<mapsto> PStr ''approved'']"

definition scenario_A :: pyval where
  "scenario_A = PDict [''homeworks'' \<mapsto> PList [homework_hw1], ''current_date'' \<mapsto> PInt 1000]"

definition scenario_B :: pyval where
  "scenario_B = PDict [''homeworks'' \<mapsto> PList [], ''current_date'' \<mapsto> PInt 1000]"

definition no_date :: pyval where
  "no_date = PDict [''homeworks'' \<mapsto> PList []]"

section \<open>Events of the single functions\<close>

lemma sends_append: "sends (xs @ ys) = sends xs @ sends ys"
  by (induction xs rule: sends.induct) simp_all

lemma requests_append: "requests (xs @ ys) = requests xs @ requests ys"
  by (induction xs rule: requests.induct) simp_all

lemma sleeps_append: "sleeps (xs @ ys) = sleeps xs @ sleeps ys"
  by (induction xs rule: sleeps.induct) simp_all

lemma send_message_sends: "sends (fst (send_message rt c a m)) = [m]"
  by (cases a) (simp_all add: send_message_def Let_def)

lemma send_message_requests: "requests (fst (send_message rt c a m)) = []"
  by (cases a) (simp_all add: send_message_def Let_def)

lemma send_message_sleeps: "sleeps (fst (send_message rt c a m)) = []"
  by (cases a) (simp_all add: send_message_def Let_def)

lemma send_message_handled: "handled a \<Longrightarrow> snd (send_message rt c a m) = None"
  by (cases a) (simp_all add: send_message_def Let_def)

lemma send_message_raises: "send_message rt c a m = (evs, Some e) \<Longrightarrow> \<not> handled a"
  by (cases a) (auto simp: send_message_def Let_def split: if_splits)

lemma get_api_answer_events:
  "fst (get_api_answer c l w) =
     [Log INFO begin_request,
      HttpGet ENDPOINT (HEADERS c) (if py_truthy l then l else PInt (clock_ns w)),
      Log INFO ''got API response. Request: {url}, {headers}, {params}'']"
  by (simp add: get_api_answer_def Let_def split: sum.splits)

lemma get_api_answer_result:
  "snd (get_api_answer c l w) =
     (case request_body (http w) of
        Inl error \<Rightarrow> Inl (IncorrectAPIResponse [ArgStr begin_request, ArgExn error])
      | Inr v \<Rightarrow> Inr v)"
  by (simp add: get_api_answer_def Let_def split: sum.splits)

lemma poll_events: "fst (poll rt c w st) = fst (get_api_answer c (load st) w)"
  by (simp add: poll_def Let_def split: prod.splits sum.splits pyval.splits list.splits)

lemma poll_prev_msg: "prev_msg (fst (snd (poll rt c w st))) = prev_msg st"
  by (simp add: poll_def Let_def split: prod.splits sum.splits pyval.splits list.splits)

lemma poll_sends: "sends (fst (poll rt c w st)) = []"
  by (simp add: poll_events get_api_answer_events)

lemma poll_sleeps: "sleeps (fst (poll rt c w st)) = []"
  by (simp add: poll_events get_api_answer_events)

section \<open>Validation of the response\<close>

text \<open>On a dictionary the source and the specification check in the same order.\<close>

lemma check_response_dict: "check_response (PDict m) = check_response_spec (PDict m)"
  by (auto simp: check_response_def check_response_spec_def split: option.splits)

lemma check_response_is_list: "check_response r = Inr v \<Longrightarrow> is_list v"
  by (cases r)
     (auto simp: check_response_def split: option.splits sum.splits bool.splits if_splits)

text \<open>
  C1. The claim has \<open>check_response\<close> test first that the response is a mapping and
  then that it holds the key \<^verbatim>\<open>homeworks\<close>. The source tests the key first. For the
  empty JSON array, which is not a mapping, the source therefore reports the missing key,
  where the order of the specification reports that the response is not a dictionary.
\<close>

theorem check_response_order_diverges:
  \<open>check_response (PList []) =
     Inl (TypeError ''Response does not contain "homeworks" key'') \<and>
   check_response_spec (PList []) = Inl (TypeError ''Response is not a dictionary'')\<close>
  by (simp add: check_response_def check_response_spec_def)

section \<open>Translation of a homework\<close>

lemma verdicts_lookup:
  "map_of HOMEWORK_VERDICTS s =
     (if s = ''approved'' then Some verdict_approved
      else if s = ''reviewing'' then Some verdict_reviewing
      else if s = ''rejected'' then Some verdict_rejected
      else None)"
  by (simp add: HOMEWORK_VERDICTS_def)

text \<open>
  C2, as amended. For every homework that is a JSON object, \<open>parse_status\<close> is decided
  by two of its entries. Without \<^verbatim>\<open>homework_name\<close> it raises the \<^verbatim>\<open>KeyError\<close>,
  whatever the status is. With a name and a status that is one of the strings
  \<^verbatim>\<open>approved\<close>, \<^verbatim>\<open>reviewing\<close>, \<^verbatim>\<open>rejected\<close> it returns the status-changed prefix, the
  name in double quotes, a full stop, a space and the verdict of that status. With a
  name and a status that is missing, or is any other string, a number, a boolean or
  null, it raises the \<^verbatim>\<open>ValueError\<close>. With a name and a status that is a list or an
  object it raises the interpreter's \<^verbatim>\<open>TypeError\<close> for an unhashable key.
\<close>

theorem parse_status_dict:
  \<open>parse_status rt (PDict m) =
     (case m ''homework_name'' of
        None \<Rightarrow> Inl (KeyError ''No key for homework_name in API response'')
      | Some name \<Rightarrow>
          (case m ''status'' of
             Some (PStr s) \<Rightarrow>
               if s = ''approved''
               then Inr (status_changed @ ''"'' @ py_str rt name @ ''". '' @ verdict_approved)
               else if s = ''reviewing''
               then Inr (status_changed @ ''"'' @ py_str rt name @ ''". '' @ verdict_reviewing)
               else if s = ''rejected''
               then Inr (status_changed @ ''"'' @ py_str rt name @ ''". '' @ verdict_rejected)
               else Inl (ValueError ''Invalid status value in API response'')
           | Some (PList xs) \<Rightarrow> Inl (TypeError (''unhashable type: '' @ quoted ''list''))
           | Some (PDict d) \<Rightarrow> Inl (TypeError (''unhashable type: '' @ quoted ''dict''))
           | _ \<Rightarrow> Inl (ValueError ''Invalid status value in API response'')))\<close>
  by (simp add: parse_status_def verdicts_lookup unhashable_def
           split: option.splits pyval.splits)

text \<open>The homework of scenario A of the specification, through the theorem.\<close>

theorem parse_status_dict_witness:
  \<open>parse_status example_runtime homework_hw1 =
     Inr (status_changed @ ''"hw1". '' @ verdict_approved)\<close>
  using parse_status_dict
    [of example_runtime "[''homework_name'' \<mapsto> PStr ''hw1'', ''status'' \<mapsto> PStr ''approved'']"]
  by (simp add: homework_hw1_def)

text \<open>
  C2 as stated fails: a homework with a name whose status is the empty list is outside
  the table, and the error is a \<^verbatim>\<open>TypeError\<close>, not the \<^verbatim>\<open>ValueError\<close>.
\<close>

theorem parse_status_unhashable_status:
  \<open>parse_status example_runtime
      (PDict [''homework_name'' \<mapsto> PStr ''hw1'', ''status'' \<mapsto> PList []]) =
     Inl (TypeError (''unhashable type: '' @ quoted ''list''))\<close>
  by (simp add: parse_status_def unhashable_def)

section \<open>Deduplication in the polling loop\<close>

lemma poll_result_state_free: "snd (snd (poll rt c w st)) = snd (snd (poll rt c w st'))"
  by (simp add: poll_def get_api_answer_def Let_def
           split: prod.splits sum.splits pyval.splits list.splits)

lemma produced_state_free: "produced rt c w st = produced rt c w st'"
  unfolding produced_def using poll_result_state_free [of rt c w st st'] by simp

lemma iteration_handled:
  assumes "handled (send_try w)" and "handled (send_except w)"
  shows "snd (snd (iteration rt c w st)) = None"
    and "sends (fst (iteration rt c w st)) =
           (if produced rt c w st = prev_msg st then [] else [produced rt c w st])"
    and "prev_msg (fst (snd (iteration rt c w st))) = produced rt c w st"
proof -
  obtain evs st1 r where p: "poll rt c w st = (evs, st1, r)"
    by (cases "poll rt c w st") auto
  have pm: "prev_msg st1 = prev_msg st"
    using poll_prev_msg [of rt c w st] p by simp
  have sv: "sends evs = []"
    using poll_sends [of rt c w st] p by simp
  have t: "\<And>m. snd (send_message rt c (send_try w) m) = None"
    using assms(1) by (rule send_message_handled)
  have x: "\<And>m. snd (send_message rt c (send_except w) m) = None"
    using assms(2) by (rule send_message_handled)
  show "snd (snd (iteration rt c w st)) = None"
    using assms
    by (cases r)
       (auto simp: iteration_def try_block_def p Let_def split: prod.splits option.splits
             dest: send_message_raises)
  show "sends (fst (iteration rt c w st)) =
           (if produced rt c w st = prev_msg st then [] else [produced rt c w st])"
  proof (cases r)
    case (Inl e)
    then show ?thesis
      using x [of "failure_message rt e"] send_message_sends [of rt c "send_except w" "failure_message rt e"]
      by (cases "send_message rt c (send_except w) (failure_message rt e)")
         (auto simp: iteration_def try_block_def p Let_def produced_def pm sv sends_append)
  next
    case (Inr m)
    then show ?thesis
      using t [of m] send_message_sends [of rt c "send_try w" m]
      by (cases "send_message rt c (send_try w) m")
         (auto simp: iteration_def try_block_def p Let_def produced_def pm sv sends_append)
  qed
  show "prev_msg (fst (snd (iteration rt c w st))) = produced rt c w st"
  proof (cases r)
    case (Inl e)
    then show ?thesis
      using x [of "failure_message rt e"]
      by (cases "send_message rt c (send_except w) (failure_message rt e)")
         (auto simp: iteration_def try_block_def p Let_def produced_def pm)
  next
    case (Inr m)
    then show ?thesis
      using t [of m]
      by (cases "send_message rt c (send_try w) m")
         (auto simp: iteration_def try_block_def p Let_def produced_def pm)
  qed
qed

lemma iteration_repeat:
  assumes "produced rt c w st = prev_msg st"
  shows "snd (snd (iteration rt c w st)) = None"
    and "sends (fst (iteration rt c w st)) = []"
    and "prev_msg (fst (snd (iteration rt c w st))) = prev_msg st"
proof -
  obtain evs st1 r where p: "poll rt c w st = (evs, st1, r)"
    by (cases "poll rt c w st") auto
  have pm: "prev_msg st1 = prev_msg st"
    using poll_prev_msg [of rt c w st] p by simp
  have sv: "sends evs = []"
    using poll_sends [of rt c w st] p by simp
  show "snd (snd (iteration rt c w st)) = None"
    using assms by (cases r) (auto simp: iteration_def try_block_def p Let_def produced_def pm)
  show "sends (fst (iteration rt c w st)) = []"
    using assms
    by (cases r) (auto simp: iteration_def try_block_def p Let_def produced_def pm sv sends_append)
  show "prev_msg (fst (snd (iteration rt c w st))) = prev_msg st"
    using assms by (cases r) (auto simp: iteration_def try_block_def p Let_def produced_def pm)
qed

lemma main_loop_handled:
  assumes "\<forall>w\<in>set ws. handled (send_try w) \<and> handled (send_except w)"
  shows "snd (snd (main_loop rt c ws st)) = None \<and>
         prev_msg (fst (snd (main_loop rt c ws st))) =
           last (prev_msg st # sends (fst (main_loop rt c ws st))) \<and>
         distinct_adj (prev_msg st # sends (fst (main_loop rt c ws st)))"
  using assms
proof (induction ws arbitrary: st)
  case Nil
  then show ?case by simp
next
  case (Cons w ws)
  obtain evs st1 r where i: "iteration rt c w st = (evs, st1, r)"
    by (cases "iteration rt c w st") auto
  have h: "handled (send_try w)" "handled (send_except w)"
    using Cons.prems by simp_all
  have r: "r = None"
    using iteration_handled(1) [OF h, of rt c st] i by simp
  have s: "sends evs = (if produced rt c w st = prev_msg st then [] else [produced rt c w st])"
    using iteration_handled(2) [OF h, of rt c st] i by simp
  have q: "prev_msg st1 = produced rt c w st"
    using iteration_handled(3) [OF h, of rt c st] i by simp
  obtain evs2 st2 r2 where l: "main_loop rt c ws st1 = (evs2, st2, r2)"
    by (cases "main_loop rt c ws st1") auto
  have ih: "r2 = None \<and> prev_msg st2 = last (prev_msg st1 # sends evs2) \<and>
            distinct_adj (prev_msg st1 # sends evs2)"
    using Cons.IH [of st1] Cons.prems l by simp
  show ?case
    using ih s q by (auto simp: i r l sends_append)
qed


text \<open>The definitions that a run on a concrete input unfolds.\<close>

lemmas run_defs =
  main_def startup_def check_tokens_def iteration_def try_block_def poll_def
  get_api_answer_def request_body_def check_response_def parse_status_def
  send_message_def failure_message_def Let_def

lemmas example_defs =
  quiet_world_def ok_response_def unavailable_def scenario_A_def scenario_B_def no_date_def
  homework_hw1_def example_credentials_def example_runtime_def

text \<open>
  C3, as amended. Let the bot client answer every send by delivering or by a
  \<^verbatim>\<open>TelegramError\<close>. If two consecutive iterations arrive at the same message, be it
  a success message or a failure diagnostic, the second one sends nothing, and the pair
  sends that message once when it differs from \<open>prev_msg\<close> before the pair and not at
  all when it equals it; after the pair \<open>prev_msg\<close> is that message. Over any number
  of iterations \<open>prev_msg\<close> is the text of the last send of the loop, or its starting
  value when the loop has sent nothing, and no text is sent twice in a row.
\<close>

theorem dedup_invariant:
  "(handled (send_try w1) \<and> handled (send_except w1) \<and>
    produced rt c w2 (fst (snd (iteration rt c w1 st))) = produced rt c w1 st \<longrightarrow>
      sends (fst (iteration rt c w2 (fst (snd (iteration rt c w1 st))))) = [] \<and>
      sends (fst (main_loop rt c [w1, w2] st)) =
        (if produced rt c w1 st = prev_msg st then [] else [produced rt c w1 st]) \<and>
      prev_msg (fst (snd (main_loop rt c [w1, w2] st))) = produced rt c w1 st) \<and>
   ((\<forall>w\<in>set ws. handled (send_try w) \<and> handled (send_except w)) \<longrightarrow>
      prev_msg (fst (snd (main_loop rt c ws st))) =
        last (prev_msg st # sends (fst (main_loop rt c ws st))) \<and>
      distinct_adj (prev_msg st # sends (fst (main_loop rt c ws st))))"
proof (intro conjI impI)
  assume a: "handled (send_try w1) \<and> handled (send_except w1) \<and>
    produced rt c w2 (fst (snd (iteration rt c w1 st))) = produced rt c w1 st"
  obtain evs1 st1 r1 where i1: "iteration rt c w1 st = (evs1, st1, r1)"
    by (cases "iteration rt c w1 st") auto
  have r1: "r1 = None"
    and s1: "sends evs1 = (if produced rt c w1 st = prev_msg st then [] else [produced rt c w1 st])"
    and p1: "prev_msg st1 = produced rt c w1 st"
    using iteration_handled [of w1 rt c st] a i1 by simp_all
  have same: "produced rt c w2 st1 = prev_msg st1"
    using a i1 p1 by simp
  obtain evs2 st2 r2 where i2: "iteration rt c w2 st1 = (evs2, st2, r2)"
    by (cases "iteration rt c w2 st1") auto
  have r2: "r2 = None" and s2: "sends evs2 = []" and p2: "prev_msg st2 = prev_msg st1"
    using iteration_repeat [OF same] i2 by simp_all
  show "sends (fst (iteration rt c w2 (fst (snd (iteration rt c w1 st))))) = []"
    using s2 by (simp add: i1 i2)
  show "sends (fst (main_loop rt c [w1, w2] st)) =
        (if produced rt c w1 st = prev_msg st then [] else [produced rt c w1 st])"
    using s1 s2 by (simp add: i1 i2 r1 r2 sends_append)
  show "prev_msg (fst (snd (main_loop rt c [w1, w2] st))) = produced rt c w1 st"
    using p1 p2 by (simp add: i1 i2 r1 r2)
next
  assume "\<forall>w\<in>set ws. handled (send_try w) \<and> handled (send_except w)"
  then show "prev_msg (fst (snd (main_loop rt c ws st))) =
        last (prev_msg st # sends (fst (main_loop rt c ws st)))"
    using main_loop_handled [of ws rt c st] by blast
next
  assume "\<forall>w\<in>set ws. handled (send_try w) \<and> handled (send_except w)"
  then show "distinct_adj (prev_msg st # sends (fst (main_loop rt c ws st)))"
    using main_loop_handled [of ws rt c st] by blast
qed

lemma produced_B: "produced rt c (quiet_world (ok_response scenario_B)) st = ''No new status''"
  by (simp add: produced_def run_defs example_defs)

lemma iteration_B:
  "iteration rt c (quiet_world (ok_response scenario_B)) st =
     (fst (get_api_answer c (load st) (quiet_world (ok_response scenario_B))) @
      (if prev_msg st = ''No new status'' then [Log INFO ''No new status'']
       else [Log DEBUG ''Send of status into telegram'',
             BotSend (TELEGRAM_CHAT_ID c) ''No new status'', Log INFO ''No new status'']) @
      [Sleep RETRY_PERIOD],
      st\<lparr>load := PInt 1000, prev_msg := ''No new status''\<rparr>, None)"
  by (simp add: run_defs example_defs)

text \<open>Scenario B twice from the state after startup: one notification.\<close>

theorem dedup_invariant_witness:
  "sends (fst (main_loop example_runtime example_credentials
      [quiet_world (ok_response scenario_B), quiet_world (ok_response scenario_B)]
      \<lparr>load = PInt 1700000000, prev_msg = []\<rparr>)) = [''No new status''] \<and>
   prev_msg (fst (snd (main_loop example_runtime example_credentials
      [quiet_world (ok_response scenario_B), quiet_world (ok_response scenario_B)]
      \<lparr>load = PInt 1700000000, prev_msg = []\<rparr>))) = ''No new status''"
  using dedup_invariant [of "quiet_world (ok_response scenario_B)"
      example_runtime example_credentials "quiet_world (ok_response scenario_B)"
      "\<lparr>load = PInt 1700000000, prev_msg = []\<rparr>"
      "[quiet_world (ok_response scenario_B), quiet_world (ok_response scenario_B)]"]
  by (simp add: produced_B) (simp add: quiet_world_def)

text \<open>
  C3 as stated fails. After startup and one iteration of scenario B the state holds
  \<^verbatim>\<open>No new status\<close>; the next two iterations arrive at that same message, and across
  the pair no notification is sent, not exactly one.
\<close>

theorem dedup_pair_sends_nothing:
  "snd (main example_runtime example_credentials Constructed 1700000000 Delivered
          [quiet_world (ok_response scenario_B)]) =
     Inr \<lparr>load = PInt 1000, prev_msg = ''No new status''\<rparr> \<and>
   sends (fst (main_loop example_runtime example_credentials
      [quiet_world (ok_response scenario_B), quiet_world (ok_response scenario_B)]
      \<lparr>load = PInt 1000, prev_msg = ''No new status''\<rparr>)) = []"
  by (simp add: iteration_B main_def startup_def check_tokens_def send_message_def Let_def
        example_credentials_def get_api_answer_events sends_append start_message_def)

section \<open>The cursor\<close>

lemma poll_load_any:
  assumes "snd (get_api_answer c (load st) w) = Inr v"
  shows "load (fst (snd (poll rt c w st))) = next_cursor v w st"
proof -
  obtain evs where g: "get_api_answer c (load st) w = (evs, Inr v)"
    using assms by (cases "get_api_answer c (load st) w") auto
  show ?thesis
    by (cases v)
       (simp_all add: poll_def g Let_def next_cursor_def
          split: sum.splits pyval.splits list.splits option.splits)
qed

lemma iteration_load:
  "load (fst (snd (iteration rt c w st))) = load (fst (snd (poll rt c w st)))"
proof -
  obtain evs st1 r where p: "poll rt c w st = (evs, st1, r)"
    by (cases "poll rt c w st") auto
  show ?thesis
    by (cases r)
       (auto simp: iteration_def try_block_def p Let_def split: prod.splits option.splits)
qed

lemma iteration_requests:
  "requests (fst (iteration rt c w st)) =
     [if py_truthy (load st) then load st else PInt (clock_ns w)]"
proof -
  obtain evs st1 r where p: "poll rt c w st = (evs, st1, r)"
    by (cases "poll rt c w st") auto
  have e: "requests evs = [if py_truthy (load st) then load st else PInt (clock_ns w)]"
    using poll_events [of rt c w st] p by (simp add: get_api_answer_events)
  have s: "\<And>a m evs2 x. send_message rt c a m = (evs2, x) \<Longrightarrow> requests evs2 = []"
    using send_message_requests by (metis fst_conv)
  show ?thesis
    using e
    by (cases r)
       (auto simp: iteration_def try_block_def p Let_def requests_append
             split: prod.splits option.splits dest: s)
qed

section \<open>Failures of the request\<close>

text \<open>
  What \<open>get_api_answer\<close> raises. For a status other than 200 it is an
  \<^verbatim>\<open>IncorrectAPIResponse\<close> with two arguments: the begin-request text, and the
  \<^verbatim>\<open>IncorrectAPIResponse\<close> built from the status code, the reason phrase and the body,
  which the handler of the same \<^verbatim>\<open>try\<close> block has caught. For a request that raises
  and for a body that does not parse, the second argument is that exception.
\<close>

lemma get_api_answer_failures:
  "(http w = Responds r \<and> status_code r \<noteq> 200 \<longrightarrow>
      (\<exists>text.
         snd (get_api_answer c l w) =
           Inl (IncorrectAPIResponse
                  [ArgStr begin_request, ArgExn (IncorrectAPIResponse [ArgStr text])]) \<and>
         text = ''API response does not return 200.Response code: '' @
                str_int (status_code r) @ ''.Reason: '' @ reason r @
                ''.Text: '' @ body_text r @ ''.'' \<and>
         sublist (str_int (status_code r)) text \<and>
         sublist (reason r) text \<and>
         sublist (body_text r) text)) \<and>
   (http w = RequestRaises e \<longrightarrow>
      snd (get_api_answer c l w) =
        Inl (IncorrectAPIResponse [ArgStr begin_request, ArgExn e])) \<and>
   (http w = Responds r \<and> status_code r = 200 \<and> json r = Inl e \<longrightarrow>
      snd (get_api_answer c l w) =
        Inl (IncorrectAPIResponse [ArgStr begin_request, ArgExn e]))"
proof (intro conjI impI)
  assume a: "http w = Responds r \<and> status_code r \<noteq> 200"
  let ?text = "''API response does not return 200.Response code: '' @
                str_int (status_code r) @ ''.Reason: '' @ reason r @
                ''.Text: '' @ body_text r @ ''.''"
  have 1: "snd (get_api_answer c l w) =
           Inl (IncorrectAPIResponse
                  [ArgStr begin_request, ArgExn (IncorrectAPIResponse [ArgStr ?text])])"
    using a by (simp add: get_api_answer_result request_body_def not_200_def)
  have 2: "sublist (str_int (status_code r)) ?text"
    unfolding sublist_def
    by (rule exI [of _ "''API response does not return 200.Response code: ''"],
        rule exI [of _ "''.Reason: '' @ reason r @ ''.Text: '' @ body_text r @ ''.''"]) simp
  have 3: "sublist (reason r) ?text"
    unfolding sublist_def
    by (rule exI [of _ "''API response does not return 200.Response code: '' @
                        str_int (status_code r) @ ''.Reason: ''"],
        rule exI [of _ "''.Text: '' @ body_text r @ ''.''"]) simp
  have 4: "sublist (body_text r) ?text"
    unfolding sublist_def
    by (rule exI [of _ "''API response does not return 200.Response code: '' @
                        str_int (status_code r) @ ''.Reason: '' @ reason r @ ''.Text: ''"],
        rule exI [of _ "''.''"]) simp
  show "\<exists>text.
         snd (get_api_answer c l w) =
           Inl (IncorrectAPIResponse
                  [ArgStr begin_request, ArgExn (IncorrectAPIResponse [ArgStr text])]) \<and>
         text = ''API response does not return 200.Response code: '' @
                str_int (status_code r) @ ''.Reason: '' @ reason r @
                ''.Text: '' @ body_text r @ ''.'' \<and>
         sublist (str_int (status_code r)) text \<and>
         sublist (reason r) text \<and>
         sublist (body_text r) text"
    using 1 2 3 4 by blast
next
  assume "http w = RequestRaises e"
  then show "snd (get_api_answer c l w) =
        Inl (IncorrectAPIResponse [ArgStr begin_request, ArgExn e])"
    by (simp add: get_api_answer_result request_body_def)
next
  assume "http w = Responds r \<and> status_code r = 200 \<and> json r = Inl e"
  then show "snd (get_api_answer c l w) =
        Inl (IncorrectAPIResponse [ArgStr begin_request, ArgExn e])"
    by (simp add: get_api_answer_result request_body_def)
qed


text \<open>
  C9. A cursor that is false in Python (zero and \<^verbatim>\<open>None\<close> among others) is not sent:
  the \<^verbatim>\<open>from_date\<close> of the request is the reading of the nanosecond clock, where the
  cursor is in seconds everywhere else (\<open>clock_s\<close> in \<open>poll\<close>, the argument
  \<open>now\<close> of \<open>startup\<close>). On a clock that does not read zero the
  \<^verbatim>\<open>from_date\<close> is never a false value, so never zero.
\<close>

theorem falsy_cursor_substituted:
  "(\<not> py_truthy l \<longrightarrow> requests (fst (get_api_answer c l w)) = [PInt (clock_ns w)]) \<and>
   (clock_ns w \<noteq> 0 \<longrightarrow>
      (\<exists>d. requests (fst (get_api_answer c l w)) = [d] \<and> py_truthy d))"
  by (simp add: get_api_answer_events)

theorem falsy_cursor_substituted_witness:
  "requests (fst (get_api_answer example_credentials (PInt 0) (quiet_world unavailable))) =
     [PInt 1700000000000000000] \<and>
   requests (fst (get_api_answer example_credentials PNone (quiet_world unavailable))) =
     [PInt 1700000000000000000]"
  using falsy_cursor_substituted [of "PInt 0" example_credentials "quiet_world unavailable"]
    falsy_cursor_substituted [of PNone example_credentials "quiet_world unavailable"]
  by (simp add: quiet_world_def)


section \<open>Notification\<close>

text \<open>
  C6, as amended. For every message, when the bot client delivers or raises a
  \<^verbatim>\<open>TelegramError\<close>, \<open>send_message\<close> returns normally; it logs the message after
  a delivery and logs the failure, and nothing else, after the error. Any other
  exception of the client leaves \<open>send_message\<close>.
\<close>

theorem send_message_absorbs:
  "(handled answer \<longrightarrow>
      snd (send_message rt c answer message) = None \<and>
      fst (send_message rt c answer message) =
        [Log DEBUG ''Send of status into telegram'',
         BotSend (TELEGRAM_CHAT_ID c) message,
         (case answer of
            Delivered \<Rightarrow> Log INFO message
          | SendRaises e \<Rightarrow>
              Log ERROR (''something wrong with message sending to telegram: '' @
                         str_exn rt e))]) \<and>
   (\<not> handled answer \<longrightarrow>
      (\<exists>e. answer = SendRaises e \<and> snd (send_message rt c answer message) = Some e))"
  by (cases answer) (simp_all add: send_message_def Let_def)

theorem send_message_absorbs_witness:
  "send_message example_runtime example_credentials
     (SendRaises (TelegramError ''Timed out'')) ''No new status'' =
   ([Log DEBUG ''Send of status into telegram'',
     BotSend (Some ''42'') ''No new status'',
     Log ERROR ''something wrong with message sending to telegram: Timed out''], None)"
  using send_message_absorbs
      [of "SendRaises (TelegramError ''Timed out'')" example_runtime example_credentials
          "''No new status''"]
  by (simp add: prod_eq_iff example_defs)

text \<open>
  C6 as stated fails: an exception of the client that is not a \<^verbatim>\<open>TelegramError\<close>
  is raised to the caller.
\<close>

theorem send_message_propagates:
  "snd (send_message example_runtime example_credentials
          (SendRaises (OtherException ''OSError'')) ''No new status'') =
     Some (OtherException ''OSError'')"
  by (simp add: send_message_def)

section \<open>Startup\<close>

lemma startup_stops:
  assumes "\<not> snd (check_tokens c)"
  shows "startup rt c b now a =
           ([Log INFO ''check for all tokens availability'',
             Log CRITICAL ''No token. Bot operation stopped!''],
            Inl (SystemExit ''No token. Bot operation stopped!''))"
  using assms by (auto simp: startup_def check_tokens_def Let_def split: bool.splits)

lemma main_stops:
  assumes "\<not> snd (check_tokens c)"
  shows "main rt c b now a ws =
           ([Log INFO ''check for all tokens availability'',
             Log CRITICAL ''No token. Bot operation stopped!''],
            Inl (SystemExit ''No token. Bot operation stopped!''))"
  by (simp add: main_def startup_stops [OF assms])

text \<open>
  C10. A credential that is set to the empty string is treated as one that is unset:
  \<open>check_tokens\<close> returns \<open>False\<close>, and \<open>main\<close> does the same with the empty
  string as with \<open>None\<close>, which is to stop.
\<close>

theorem empty_credential_is_absent:
  "snd (check_tokens (c\<lparr>PRACTICUM_TOKEN := Some []\<rparr>)) = False \<and>
   snd (check_tokens (c\<lparr>TELEGRAM_TOKEN := Some []\<rparr>)) = False \<and>
   snd (check_tokens (c\<lparr>TELEGRAM_CHAT_ID := Some []\<rparr>)) = False \<and>
   main rt (c\<lparr>PRACTICUM_TOKEN := Some []\<rparr>) b now a ws =
     main rt (c\<lparr>PRACTICUM_TOKEN := None\<rparr>) b now a ws \<and>
   main rt (c\<lparr>TELEGRAM_TOKEN := Some []\<rparr>) b now a ws =
     main rt (c\<lparr>TELEGRAM_TOKEN := None\<rparr>) b now a ws \<and>
   main rt (c\<lparr>TELEGRAM_CHAT_ID := Some []\<rparr>) b now a ws =
     main rt (c\<lparr>TELEGRAM_CHAT_ID := None\<rparr>) b now a ws \<and>
   main rt (c\<lparr>TELEGRAM_TOKEN := Some []\<rparr>) b now a ws =
     ([Log INFO ''check for all tokens availability'',
       Log CRITICAL ''No token. Bot operation stopped!''],
      Inl (SystemExit ''No token. Bot operation stopped!''))"
  by (simp add: main_stops check_tokens_def)


section \<open>Failures inside the loop\<close>

lemma try_block_sleeps: "sleeps (fst (try_block rt c w st)) = []"
proof -
  obtain evs st1 r where p: "poll rt c w st = (evs, st1, r)"
    by (cases "poll rt c w st") auto
  have e: "sleeps evs = []"
    using poll_sleeps [of rt c w st] p by simp
  have s: "\<And>a m evs2 x. send_message rt c a m = (evs2, x) \<Longrightarrow> sleeps evs2 = []"
    using send_message_sleeps by (metis fst_conv)
  show ?thesis
    using e
    by (cases r)
       (auto simp: try_block_def p sleeps_append split: prod.splits option.splits dest: s)
qed

lemma iteration_sleeps:
  "sleeps (fst (iteration rt c w st)) = [RETRY_PERIOD] \<and>
   last (fst (iteration rt c w st)) = Sleep RETRY_PERIOD"
proof -
  obtain evs st1 r where t: "try_block rt c w st = (evs, st1, r)"
    by (cases "try_block rt c w st") auto
  have e: "sleeps evs = []"
    using try_block_sleeps [of rt c w st] t by simp
  have s: "\<And>a m evs2 x. send_message rt c a m = (evs2, x) \<Longrightarrow> sleeps evs2 = []"
    using send_message_sleeps by (metis fst_conv)
  show ?thesis
    using e
    by (cases r)
       (auto simp: iteration_def t Let_def sleeps_append split: prod.splits option.splits
             dest: s)
qed

lemma iteration_continues:
  assumes "handled (send_except w)"
  shows "snd (snd (iteration rt c w st)) = None"
proof -
  obtain evs st1 r where t: "try_block rt c w st = (evs, st1, r)"
    by (cases "try_block rt c w st") auto
  show ?thesis
    using assms
    by (cases r)
       (auto simp: iteration_def t Let_def split: prod.splits option.splits
             dest: send_message_raises)
qed

lemma main_loop_continues:
  assumes "\<forall>w\<in>set ws. handled (send_except w)"
  shows "snd (snd (main_loop rt c ws st)) = None \<and>
         sleeps (fst (main_loop rt c ws st)) = replicate (length ws) RETRY_PERIOD"
  using assms
proof (induction ws arbitrary: st)
  case Nil
  then show ?case by simp
next
  case (Cons w ws)
  obtain evs st1 r where i: "iteration rt c w st = (evs, st1, r)"
    by (cases "iteration rt c w st") auto
  have r: "r = None"
    using iteration_continues [of w rt c st] Cons.prems i by simp
  have z: "sleeps evs = [RETRY_PERIOD]"
    using iteration_sleeps [of rt c w st] i by simp
  obtain evs2 st2 r2 where l: "main_loop rt c ws st1 = (evs2, st2, r2)"
    by (cases "main_loop rt c ws st1") auto
  have ih: "r2 = None \<and> sleeps evs2 = replicate (length ws) RETRY_PERIOD"
    using Cons.IH [of st1] Cons.prems l by simp
  show ?case
    using ih z by (simp add: i r l sleeps_append)
qed

lemma iteration_failure:
  assumes "snd (snd (poll rt c w st)) = Inl e"
  shows "fst (iteration rt c w st) =
           fst (poll rt c w st) @ [Log ERROR (failure_prefix @ str_exn rt e)] @
           (if failure_prefix @ str_exn rt e = prev_msg st then []
            else fst (send_message rt c (send_except w) (failure_prefix @ str_exn rt e))) @
           [Sleep RETRY_PERIOD]"
    and "handled (send_except w) \<Longrightarrow>
           prev_msg (fst (snd (iteration rt c w st))) = failure_prefix @ str_exn rt e"
proof -
  obtain evs st1 where p: "poll rt c w st = (evs, st1, Inl e)"
    using assms by (cases "poll rt c w st") auto
  have pm: "prev_msg st1 = prev_msg st"
    using poll_prev_msg [of rt c w st] p by simp
  show "fst (iteration rt c w st) =
           fst (poll rt c w st) @ [Log ERROR (failure_prefix @ str_exn rt e)] @
           (if failure_prefix @ str_exn rt e = prev_msg st then []
            else fst (send_message rt c (send_except w) (failure_prefix @ str_exn rt e))) @
           [Sleep RETRY_PERIOD]"
    by (auto simp: iteration_def try_block_def p pm Let_def failure_message_def
             split: prod.splits option.splits)
  show "handled (send_except w) \<Longrightarrow>
           prev_msg (fst (snd (iteration rt c w st))) = failure_prefix @ str_exn rt e"
    by (auto simp: iteration_def try_block_def p pm Let_def failure_message_def
             split: prod.splits option.splits dest: send_message_raises)
qed

text \<open>
  C7, as amended. When the fetch, the update of the cursor, the validation or the
  translation of an iteration raises \<open>e\<close>, the iteration logs the diagnostic (the
  failure prefix followed by the text of \<open>e\<close>), sends it unless it repeats
  \<open>prev_msg\<close>, and sleeps; when the client's answer to that send is a delivery or a
  \<^verbatim>\<open>TelegramError\<close>, the loop goes on and \<open>prev_msg\<close> is the diagnostic. Every
  iteration, on every path, sleeps once for the retry period, as its last action. A loop
  in which no send of the handler raises past \<open>send_message\<close> never ends: after any
  number of iterations it is still running and has slept once per iteration.
\<close>

theorem failures_are_reported:
  "(snd (snd (poll rt c w st)) = Inl e \<longrightarrow>
      fst (iteration rt c w st) =
        fst (poll rt c w st) @ [Log ERROR (failure_prefix @ str_exn rt e)] @
        (if failure_prefix @ str_exn rt e = prev_msg st then []
         else fst (send_message rt c (send_except w) (failure_prefix @ str_exn rt e))) @
        [Sleep RETRY_PERIOD] \<and>
      sends (fst (iteration rt c w st)) =
        (if failure_prefix @ str_exn rt e = prev_msg st then []
         else [failure_prefix @ str_exn rt e]) \<and>
      (handled (send_except w) \<longrightarrow>
         snd (snd (iteration rt c w st)) = None \<and>
         prev_msg (fst (snd (iteration rt c w st))) = failure_prefix @ str_exn rt e)) \<and>
   sleeps (fst (iteration rt c w st)) = [RETRY_PERIOD] \<and>
   last (fst (iteration rt c w st)) = Sleep RETRY_PERIOD \<and>
   ((\<forall>w\<in>set ws. handled (send_except w)) \<longrightarrow>
      snd (snd (main_loop rt c ws st)) = None \<and>
      sleeps (fst (main_loop rt c ws st)) = replicate (length ws) RETRY_PERIOD)"
proof (intro conjI impI)
  assume a: "snd (snd (poll rt c w st)) = Inl e"
  show "fst (iteration rt c w st) =
        fst (poll rt c w st) @ [Log ERROR (failure_prefix @ str_exn rt e)] @
        (if failure_prefix @ str_exn rt e = prev_msg st then []
         else fst (send_message rt c (send_except w) (failure_prefix @ str_exn rt e))) @
        [Sleep RETRY_PERIOD]"
    by (rule iteration_failure(1) [OF a])
  show "sends (fst (iteration rt c w st)) =
        (if failure_prefix @ str_exn rt e = prev_msg st then []
         else [failure_prefix @ str_exn rt e])"
    by (simp add: iteration_failure(1) [OF a] sends_append poll_sends send_message_sends)
  show "snd (snd (iteration rt c w st)) = None" if "handled (send_except w)"
    by (rule iteration_continues [OF that])
  show "prev_msg (fst (snd (iteration rt c w st))) = failure_prefix @ str_exn rt e"
    if "handled (send_except w)"
    by (rule iteration_failure(2) [OF a that])
next
  show "sleeps (fst (iteration rt c w st)) = [RETRY_PERIOD]"
    by (simp add: iteration_sleeps)
  show "last (fst (iteration rt c w st)) = Sleep RETRY_PERIOD"
    by (simp add: iteration_sleeps)
next
  assume "\<forall>w\<in>set ws. handled (send_except w)"
  then show "snd (snd (main_loop rt c ws st)) = None"
    using main_loop_continues [of ws rt c st] by blast
next
  assume "\<forall>w\<in>set ws. handled (send_except w)"
  then show "sleeps (fst (main_loop rt c ws st)) = replicate (length ws) RETRY_PERIOD"
    using main_loop_continues [of ws rt c st] by blast
qed

text \<open>Scenario D twice: one diagnostic, two sleeps, the loop still running.\<close>

theorem failures_are_reported_witness:
  "sends (fst (iteration example_runtime example_credentials (quiet_world unavailable)
      \<lparr>load = PInt 1000, prev_msg = []\<rparr>)) = [failure_prefix @ ''IncorrectAPIResponse''] \<and>
   snd (snd (main_loop example_runtime example_credentials
      [quiet_world unavailable, quiet_world unavailable]
      \<lparr>load = PInt 1000, prev_msg = []\<rparr>)) = None \<and>
   sleeps (fst (main_loop example_runtime example_credentials
      [quiet_world unavailable, quiet_world unavailable]
      \<lparr>load = PInt 1000, prev_msg = []\<rparr>)) = [600, 600]"
proof -
  let ?e = "IncorrectAPIResponse
              [ArgStr begin_request,
               ArgExn (IncorrectAPIResponse
                 [ArgStr (not_200 \<lparr>status_code = 503, reason = ''Service Unavailable'',
                    body_text = ''down'', json = Inl (OtherException ''JSONDecodeError'')\<rparr>)])]"
  have p: "snd (snd (poll example_runtime example_credentials (quiet_world unavailable)
             \<lparr>load = PInt 1000, prev_msg = []\<rparr>)) = Inl ?e"
    by (simp add: poll_def get_api_answer_def request_body_def Let_def quiet_world_def
          unavailable_def)
  have n: "failure_prefix \<noteq> []"
    by (simp add: failure_prefix_def)
  have h: "\<forall>w\<in>set [quiet_world unavailable, quiet_world unavailable]. handled (send_except w)"
    by (simp add: quiet_world_def)
  have s: "str_exn example_runtime ?e = ''IncorrectAPIResponse''"
    by (simp add: example_runtime_def)
  note t = failures_are_reported
      [of example_runtime example_credentials "quiet_world unavailable"
          "\<lparr>load = PInt 1000, prev_msg = []\<rparr>" ?e
          "[quiet_world unavailable, quiet_world unavailable]"]
  have a: "sends (fst (iteration example_runtime example_credentials (quiet_world unavailable)
      \<lparr>load = PInt 1000, prev_msg = []\<rparr>)) = [failure_prefix @ str_exn example_runtime ?e]"
  proof -
    have "sends (fst (iteration example_runtime example_credentials (quiet_world unavailable)
        \<lparr>load = PInt 1000, prev_msg = []\<rparr>)) =
      (if failure_prefix @ str_exn example_runtime ?e =
          prev_msg \<lparr>load = PInt 1000, prev_msg = []\<rparr>
       then [] else [failure_prefix @ str_exn example_runtime ?e])"
      using t p by blast
    then show ?thesis
      using n by simp
  qed
  have b: "snd (snd (main_loop example_runtime example_credentials
      [quiet_world unavailable, quiet_world unavailable]
      \<lparr>load = PInt 1000, prev_msg = []\<rparr>)) = None \<and>
   sleeps (fst (main_loop example_runtime example_credentials
      [quiet_world unavailable, quiet_world unavailable]
      \<lparr>load = PInt 1000, prev_msg = []\<rparr>)) =
     replicate (length [quiet_world unavailable, quiet_world unavailable]) RETRY_PERIOD"
    using t h by blast
  have r: "replicate (length [quiet_world unavailable, quiet_world unavailable]) RETRY_PERIOD =
           [600, 600]"
    by (simp add: RETRY_PERIOD_def)
  show ?thesis
    using a b by (simp only: s r)
qed

text \<open>
  C7 as stated fails: the request fails, the handler sends the diagnostic, the client
  raises an exception that is not a \<^verbatim>\<open>TelegramError\<close>, and that exception ends the
  loop after the sleep of the first iteration; the second iteration never runs.
\<close>

theorem loop_ends_on_client_error:
  "snd (snd (main_loop example_runtime example_credentials
      [(quiet_world unavailable)\<lparr>send_except := SendRaises (OtherException ''OSError'')\<rparr>,
       quiet_world unavailable]
      \<lparr>load = PInt 1000, prev_msg = []\<rparr>)) = Some (OtherException ''OSError'') \<and>
   sleeps (fst (main_loop example_runtime example_credentials
      [(quiet_world unavailable)\<lparr>send_except := SendRaises (OtherException ''OSError'')\<rparr>,
       quiet_world unavailable]
      \<lparr>load = PInt 1000, prev_msg = []\<rparr>)) = [600]"
  by (simp add: run_defs example_defs failure_prefix_def RETRY_PERIOD_def)

section \<open>The cursor across iterations\<close>

lemma main_loop_requests_hd:
  "\<exists>rest. requests (fst (main_loop rt c (w # ws) st)) = timeline (load st) w # rest"
proof -
  obtain evs st1 r where i: "iteration rt c w st = (evs, st1, r)"
    by (cases "iteration rt c w st") auto
  have q: "requests evs = [timeline (load st) w]"
    using iteration_requests [of rt c w st] i by (simp add: timeline_def)
  show ?thesis
    using q
    by (cases r) (auto simp: i requests_append split: prod.splits)
qed

lemma main_loop_step:
  assumes "snd (snd (iteration rt c w st)) = None"
  shows "fst (main_loop rt c (w # ws) st) =
           fst (iteration rt c w st) @ fst (main_loop rt c ws (fst (snd (iteration rt c w st))))"
    and "snd (main_loop rt c (w # ws) st) =
           snd (main_loop rt c ws (fst (snd (iteration rt c w st))))"
  using assms
  by (cases "iteration rt c w st"; cases "main_loop rt c ws (fst (snd (iteration rt c w st)))";
      simp)+

text \<open>
  C4, as amended. Let the fetch of an iteration return the value \<open>v\<close>. After the
  iteration the cursor is \<open>next_cursor v\<close>: the \<^verbatim>\<open>current_date\<close> of \<open>v\<close> when
  \<open>v\<close> is a JSON object, the reading of the clock in seconds when such an object has no
  \<^verbatim>\<open>current_date\<close>, and the old cursor when \<open>v\<close> is not an object. When the
  iteration does not end the loop, the loop issues the next request with that cursor:
  the first two requests of the loop carry the \<^verbatim>\<open>from_date\<close> of the old and of the new
  cursor. For an integer \<^verbatim>\<open>current_date = T\<close> the new cursor is \<open>T\<close>, and the
  \<^verbatim>\<open>from_date\<close> of the next request is \<open>T\<close> when \<open>T\<close> is not zero and is never
  below \<open>T\<close> on a clock that is not negative.
\<close>

theorem cursor_update:
  assumes "snd (get_api_answer c (load st) w) = Inr v"
      and "handled (send_except w)"
  shows "load (fst (snd (iteration rt c w st))) = next_cursor v w st \<and>
         take 2 (requests (fst (main_loop rt c (w # w2 # ws) st))) =
           [if py_truthy (load st) then load st else PInt (clock_ns w),
            if py_truthy (next_cursor v w st) then next_cursor v w st
            else PInt (clock_ns w2)] \<and>
         (\<forall>m T. v = PDict m \<and> m ''current_date'' = Some (PInt T) \<longrightarrow>
            next_cursor v w st = PInt T \<and>
            (\<exists>T'. take 2 (requests (fst (main_loop rt c (w # w2 # ws) st))) =
                    [if py_truthy (load st) then load st else PInt (clock_ns w), PInt T'] \<and>
               (T \<noteq> 0 \<longrightarrow> T' = T) \<and> (0 \<le> clock_ns w2 \<longrightarrow> T \<le> T'))) \<and>
         (\<forall>m. v = PDict m \<and> m ''current_date'' = None \<longrightarrow>
            next_cursor v w st = PInt (clock_s w)) \<and>
         (\<not> is_dict v \<longrightarrow> next_cursor v w st = load st)"
proof -
  have l: "load (fst (snd (iteration rt c w st))) = next_cursor v w st"
    using poll_load_any [OF assms(1)] by (simp add: iteration_load)
  have n: "snd (snd (iteration rt c w st)) = None"
    by (rule iteration_continues [OF assms(2)])
  obtain rest where
    r: "requests (fst (main_loop rt c (w2 # ws) (fst (snd (iteration rt c w st))))) =
          timeline (next_cursor v w st) w2 # rest"
    using main_loop_requests_hd [of rt c w2 ws "fst (snd (iteration rt c w st))"] l by auto
  have "requests (fst (main_loop rt c (w # w2 # ws) st)) =
          requests (fst (iteration rt c w st)) @
          requests (fst (main_loop rt c (w2 # ws) (fst (snd (iteration rt c w st)))))"
    by (simp only: main_loop_step(1) [OF n] requests_append)
  then have q: "requests (fst (main_loop rt c (w # w2 # ws) st)) =
          timeline (load st) w # timeline (next_cursor v w st) w2 # rest"
    by (simp only: r iteration_requests timeline_def append_Cons append_Nil)
  have t: "take 2 (requests (fst (main_loop rt c (w # w2 # ws) st))) =
           [if py_truthy (load st) then load st else PInt (clock_ns w),
            if py_truthy (next_cursor v w st) then next_cursor v w st
            else PInt (clock_ns w2)]"
    by (simp only: q) (simp add: timeline_def)
  have i: "\<forall>m T. v = PDict m \<and> m ''current_date'' = Some (PInt T) \<longrightarrow>
            next_cursor v w st = PInt T \<and>
            (\<exists>T'. take 2 (requests (fst (main_loop rt c (w # w2 # ws) st))) =
                    [if py_truthy (load st) then load st else PInt (clock_ns w), PInt T'] \<and>
               (T \<noteq> 0 \<longrightarrow> T' = T) \<and> (0 \<le> clock_ns w2 \<longrightarrow> T \<le> T'))"
    by (simp only: t) (auto simp: next_cursor_def)
  have a: "\<forall>m. v = PDict m \<and> m ''current_date'' = None \<longrightarrow>
            next_cursor v w st = PInt (clock_s w)"
    by (auto simp: next_cursor_def)
  have d: "\<not> is_dict v \<longrightarrow> next_cursor v w st = load st"
    by (cases v) (auto simp: next_cursor_def)
  show ?thesis
    using l t i a d by blast
qed

text \<open>Scenario A, then scenario B, in the loop.\<close>

theorem cursor_update_witness:
  "load (fst (snd (iteration example_runtime example_credentials
      (quiet_world (ok_response scenario_A)) \<lparr>load = PInt 1700000000, prev_msg = []\<rparr>))) =
     PInt 1000 \<and>
   take 2 (requests (fst (main_loop example_runtime example_credentials
      [quiet_world (ok_response scenario_A), quiet_world (ok_response scenario_B)]
      \<lparr>load = PInt 1700000000, prev_msg = []\<rparr>))) = [PInt 1700000000, PInt 1000]"
proof -
  have g: "snd (get_api_answer example_credentials
             (load \<lparr>load = PInt 1700000000, prev_msg = []\<rparr>)
             (quiet_world (ok_response scenario_A))) = Inr scenario_A"
    by (simp add: get_api_answer_result request_body_def quiet_world_def ok_response_def)
  have h: "handled (send_except (quiet_world (ok_response scenario_A)))"
    by (simp add: quiet_world_def)
  have n: "next_cursor scenario_A (quiet_world (ok_response scenario_A))
             \<lparr>load = PInt 1700000000, prev_msg = []\<rparr> = PInt 1000"
    by (simp add: next_cursor_def scenario_A_def)
  show ?thesis
    using cursor_update [OF g h, of example_runtime "quiet_world (ok_response scenario_B)" "[]"]
    by (simp add: n)
qed

text \<open>
  C4 as stated fails. The fetch succeeds with the empty JSON array, which holds no
  \<^verbatim>\<open>current_date\<close>; the cursor does not fall back to the clock, it stays 1000, and
  the next request is made with 1000 again.
\<close>

theorem cursor_kept_on_non_object:
  "snd (get_api_answer example_credentials (PInt 1000) (quiet_world (ok_response (PList [])))) =
     Inr (PList []) \<and>
   clock_s (quiet_world (ok_response (PList []))) = 1700000000 \<and>
   load (fst (snd (main_loop example_runtime example_credentials
      [quiet_world (ok_response (PList []))] \<lparr>load = PInt 1000, prev_msg = []\<rparr>))) =
     PInt 1000 \<and>
   requests (fst (main_loop example_runtime example_credentials
      [quiet_world (ok_response (PList [])), quiet_world (ok_response (PList []))]
      \<lparr>load = PInt 1000, prev_msg = []\<rparr>)) = [PInt 1000, PInt 1000]"
  by (simp add: run_defs quiet_world_def ok_response_def example_runtime_def no_attribute_def
        failure_prefix_def)

section \<open>Startup and the first iteration\<close>

lemma main_constructor_raises:
  assumes "snd (check_tokens c)"
  shows "main rt c (ConstructRaises e) now a ws =
           ([Log INFO ''check for all tokens availability''], Inl (Uncaught e))"
  using assms
  by (auto simp: main_def startup_def check_tokens_def split: bool.splits)

lemma main_send_raises:
  assumes "snd (check_tokens c)" and "\<not> is_TelegramError e"
  shows "main rt c Constructed now (SendRaises e) ws =
           ([Log INFO ''check for all tokens availability'',
             Log DEBUG ''Send of status into telegram'',
             BotSend (TELEGRAM_CHAT_ID c) ''Bot starts operation''],
            Inl (Uncaught e))"
  using assms
  by (auto simp: main_def startup_def check_tokens_def send_message_def start_message_def
           split: bool.splits)

lemma main_proceeds:
  assumes "snd (check_tokens c)" and "handled a"
  shows "fst (main rt c Constructed now a ws) =
           Log INFO ''check for all tokens availability'' #
           fst (send_message rt c a ''Bot starts operation'') @
           Log INFO ''Bot starts operation'' #
           fst (main_loop rt c ws \<lparr>load = PInt now, prev_msg = []\<rparr>)"
    and "snd (main rt c Constructed now a ws) =
           (case snd (snd (main_loop rt c ws \<lparr>load = PInt now, prev_msg = []\<rparr>)) of
              None \<Rightarrow> Inr (fst (snd (main_loop rt c ws \<lparr>load = PInt now, prev_msg = []\<rparr>)))
            | Some e \<Rightarrow> Inl (Uncaught e))"
proof -
  obtain evs where s: "send_message rt c a start_message = (evs, None)"
    using send_message_handled [OF assms(2), of rt c start_message]
    by (cases "send_message rt c a start_message") auto
  have u: "startup rt c Constructed now a =
             (Log INFO ''check for all tokens availability'' # evs @ [Log INFO start_message],
              Inr \<lparr>load = PInt now, prev_msg = []\<rparr>)"
    using assms(1) by (auto simp: startup_def check_tokens_def s Let_def split: bool.splits)
  obtain evs2 st2 r where l: "main_loop rt c ws \<lparr>load = PInt now, prev_msg = []\<rparr> = (evs2, st2, r)"
    by (cases "main_loop rt c ws \<lparr>load = PInt now, prev_msg = []\<rparr>") auto
  show "fst (main rt c Constructed now a ws) =
           Log INFO ''check for all tokens availability'' #
           fst (send_message rt c a ''Bot starts operation'') @
           Log INFO ''Bot starts operation'' #
           fst (main_loop rt c ws \<lparr>load = PInt now, prev_msg = []\<rparr>)"
    using s by (cases r) (simp_all add: main_def u l start_message_def)
  show "snd (main rt c Constructed now a ws) =
           (case snd (snd (main_loop rt c ws \<lparr>load = PInt now, prev_msg = []\<rparr>)) of
              None \<Rightarrow> Inr (fst (snd (main_loop rt c ws \<lparr>load = PInt now, prev_msg = []\<rparr>)))
            | Some e \<Rightarrow> Inl (Uncaught e))"
    by (cases r) (simp_all add: main_def u l)
qed

text \<open>
  C8, as amended. When one of the three credentials has no value (the variable is unset
  or empty), \<open>main\<close> logs the check, logs the critical message and exits with status 1;
  these two log entries are all it does, so no message is sent and no request made. When
  all three have a value and the constructor of the bot raises, \<open>main\<close> ends with that
  exception after the log entry of the check, before anything is sent. When the bot is
  constructed, \<open>main\<close> sends \<^verbatim>\<open>Bot starts operation\<close> first; a client exception that
  is not a \<^verbatim>\<open>TelegramError\<close> ends it there, and otherwise it runs the loop from the
  state whose cursor is the clock reading in seconds and whose \<open>prev_msg\<close> is empty, so
  that the first request carries that cursor.
\<close>

theorem startup_checks_credentials:
  "((PRACTICUM_TOKEN c \<in> {None, Some []} \<or> TELEGRAM_TOKEN c \<in> {None, Some []} \<or>
     TELEGRAM_CHAT_ID c \<in> {None, Some []}) \<longrightarrow>
      main rt c b now a ws =
        ([Log INFO ''check for all tokens availability'',
          Log CRITICAL ''No token. Bot operation stopped!''],
         Inl (SystemExit ''No token. Bot operation stopped!'')) \<and>
      exit_status (SystemExit ''No token. Bot operation stopped!'') \<noteq> 0 \<and>
      sends (fst (main rt c b now a ws)) = [] \<and>
      requests (fst (main rt c b now a ws)) = []) \<and>
   ((PRACTICUM_TOKEN c \<notin> {None, Some []} \<and> TELEGRAM_TOKEN c \<notin> {None, Some []} \<and>
     TELEGRAM_CHAT_ID c \<notin> {None, Some []}) \<longrightarrow>
      (\<forall>e. b = ConstructRaises e \<longrightarrow>
         main rt c b now a ws =
           ([Log INFO ''check for all tokens availability''], Inl (Uncaught e))) \<and>
      (\<forall>e. b = Constructed \<and> a = SendRaises e \<and> \<not> is_TelegramError e \<longrightarrow>
         main rt c b now a ws =
           ([Log INFO ''check for all tokens availability'',
             Log DEBUG ''Send of status into telegram'',
             BotSend (TELEGRAM_CHAT_ID c) ''Bot starts operation''],
            Inl (Uncaught e))) \<and>
      (b = Constructed \<and> handled a \<longrightarrow>
         fst (main rt c b now a ws) =
           Log INFO ''check for all tokens availability'' #
           fst (send_message rt c a ''Bot starts operation'') @
           Log INFO ''Bot starts operation'' #
           fst (main_loop rt c ws \<lparr>load = PInt now, prev_msg = []\<rparr>) \<and>
         snd (main rt c b now a ws) =
           (case snd (snd (main_loop rt c ws \<lparr>load = PInt now, prev_msg = []\<rparr>)) of
              None \<Rightarrow> Inr (fst (snd (main_loop rt c ws \<lparr>load = PInt now, prev_msg = []\<rparr>)))
            | Some e \<Rightarrow> Inl (Uncaught e)) \<and>
         sends (fst (main rt c b now a ws)) =
           ''Bot starts operation'' #
           sends (fst (main_loop rt c ws \<lparr>load = PInt now, prev_msg = []\<rparr>)) \<and>
         (\<forall>w ws'. ws = w # ws' \<longrightarrow>
            take 1 (requests (fst (main rt c b now a ws))) =
              [if now = 0 then PInt (clock_ns w) else PInt now])))"
proof (intro conjI impI allI)
  assume a: "PRACTICUM_TOKEN c \<in> {None, Some []} \<or> TELEGRAM_TOKEN c \<in> {None, Some []} \<or>
     TELEGRAM_CHAT_ID c \<in> {None, Some []}"
  then have n: "\<not> snd (check_tokens c)"
    by (auto simp: check_tokens_def)
  show "main rt c b now a ws =
        ([Log INFO ''check for all tokens availability'',
          Log CRITICAL ''No token. Bot operation stopped!''],
         Inl (SystemExit ''No token. Bot operation stopped!''))"
    by (rule main_stops [OF n])
  show "exit_status (SystemExit ''No token. Bot operation stopped!'') \<noteq> 0"
    by simp
  show "sends (fst (main rt c b now a ws)) = []"
    by (simp add: main_stops [OF n])
  show "requests (fst (main rt c b now a ws)) = []"
    by (simp add: main_stops [OF n])
next
  fix e
  assume p: "PRACTICUM_TOKEN c \<notin> {None, Some []} \<and> TELEGRAM_TOKEN c \<notin> {None, Some []} \<and>
     TELEGRAM_CHAT_ID c \<notin> {None, Some []}"
  have t: "\<And>x. x \<notin> {None, Some []} \<Longrightarrow> opt_truthy x"
    by (case_tac x) auto
  have y: "snd (check_tokens c)"
    using p by (simp add: check_tokens_def t)
  show "main rt c b now a ws =
           ([Log INFO ''check for all tokens availability''], Inl (Uncaught e))"
    if "b = ConstructRaises e"
    using that by (simp add: main_constructor_raises [OF y])
  show "main rt c b now a ws =
           ([Log INFO ''check for all tokens availability'',
             Log DEBUG ''Send of status into telegram'',
             BotSend (TELEGRAM_CHAT_ID c) ''Bot starts operation''],
            Inl (Uncaught e))"
    if "b = Constructed \<and> a = SendRaises e \<and> \<not> is_TelegramError e"
    using that by (simp add: main_send_raises [OF y])
next
  assume p: "PRACTICUM_TOKEN c \<notin> {None, Some []} \<and> TELEGRAM_TOKEN c \<notin> {None, Some []} \<and>
     TELEGRAM_CHAT_ID c \<notin> {None, Some []}"
    and g: "b = Constructed \<and> handled a"
  have t: "\<And>x. x \<notin> {None, Some []} \<Longrightarrow> opt_truthy x"
    by (case_tac x) auto
  have y: "snd (check_tokens c)"
    using p by (simp add: check_tokens_def t)
  have h: "handled a" and b: "b = Constructed"
    using g by simp_all
  show f: "fst (main rt c b now a ws) =
           Log INFO ''check for all tokens availability'' #
           fst (send_message rt c a ''Bot starts operation'') @
           Log INFO ''Bot starts operation'' #
           fst (main_loop rt c ws \<lparr>load = PInt now, prev_msg = []\<rparr>)"
    unfolding b by (rule main_proceeds(1) [OF y h])
  show "snd (main rt c b now a ws) =
           (case snd (snd (main_loop rt c ws \<lparr>load = PInt now, prev_msg = []\<rparr>)) of
              None \<Rightarrow> Inr (fst (snd (main_loop rt c ws \<lparr>load = PInt now, prev_msg = []\<rparr>)))
            | Some e \<Rightarrow> Inl (Uncaught e))"
    unfolding b by (rule main_proceeds(2) [OF y h])
  show "sends (fst (main rt c b now a ws)) =
           ''Bot starts operation'' #
           sends (fst (main_loop rt c ws \<lparr>load = PInt now, prev_msg = []\<rparr>))"
    by (simp only: f) (simp add: sends_append send_message_sends)
  fix w ws'
  assume w: "ws = w # ws'"
  obtain rest where
    r: "requests (fst (main_loop rt c (w # ws') \<lparr>load = PInt now, prev_msg = []\<rparr>)) =
          timeline (load \<lparr>load = PInt now, prev_msg = []\<rparr>) w # rest"
    using main_loop_requests_hd [of rt c w ws' "\<lparr>load = PInt now, prev_msg = []\<rparr>"] by auto
  have "requests (fst (main rt c b now a ws)) =
          requests (fst (main_loop rt c ws \<lparr>load = PInt now, prev_msg = []\<rparr>))"
    by (simp only: f) (simp add: requests_append send_message_requests del: main_loop.simps)
  then have "requests (fst (main rt c b now a ws)) =
          requests (fst (main_loop rt c (w # ws') \<lparr>load = PInt now, prev_msg = []\<rparr>))"
    by (simp only: w)
  then show "take 1 (requests (fst (main rt c b now a ws))) =
              [if now = 0 then PInt (clock_ns w) else PInt now]"
    by (simp only: r) (simp add: timeline_def)
qed


text \<open>A missing bot token (scenario E), and a start followed by scenario B.\<close>

theorem startup_checks_credentials_witness:
  "main example_runtime (example_credentials\<lparr>TELEGRAM_TOKEN := None\<rparr>) Constructed
      1700000000 Delivered [quiet_world (ok_response scenario_B)] =
     ([Log INFO ''check for all tokens availability'',
       Log CRITICAL ''No token. Bot operation stopped!''],
      Inl (SystemExit ''No token. Bot operation stopped!'')) \<and>
   sends (fst (main example_runtime example_credentials Constructed 1700000000 Delivered
      [quiet_world (ok_response scenario_B)])) =
     [''Bot starts operation'', ''No new status''] \<and>
   take 1 (requests (fst (main example_runtime example_credentials Constructed 1700000000
      Delivered [quiet_world (ok_response scenario_B)]))) = [PInt 1700000000]"
proof -
  have l: "sends (fst (main_loop example_runtime example_credentials
             [quiet_world (ok_response scenario_B)]
             \<lparr>load = PInt 1700000000, prev_msg = []\<rparr>)) = [''No new status'']"
    by (simp add: iteration_B sends_append get_api_answer_events)
  have m: "TELEGRAM_TOKEN (example_credentials\<lparr>TELEGRAM_TOKEN := None\<rparr>) \<in> {None, Some []}"
    by simp
  have p: "PRACTICUM_TOKEN example_credentials \<notin> {None, Some []} \<and>
           TELEGRAM_TOKEN example_credentials \<notin> {None, Some []} \<and>
           TELEGRAM_CHAT_ID example_credentials \<notin> {None, Some []}"
    by (simp add: example_credentials_def)
  have h: "Constructed = Constructed \<and> handled Delivered"
    by simp
  note t1 = startup_checks_credentials
        [of "example_credentials\<lparr>TELEGRAM_TOKEN := None\<rparr>" example_runtime Constructed
            1700000000 Delivered "[quiet_world (ok_response scenario_B)]"]
  note t2 = startup_checks_credentials
        [of example_credentials example_runtime Constructed 1700000000 Delivered
            "[quiet_world (ok_response scenario_B)]"]
  have 1: "main example_runtime (example_credentials\<lparr>TELEGRAM_TOKEN := None\<rparr>) Constructed
      1700000000 Delivered [quiet_world (ok_response scenario_B)] =
     ([Log INFO ''check for all tokens availability'',
       Log CRITICAL ''No token. Bot operation stopped!''],
      Inl (SystemExit ''No token. Bot operation stopped!''))"
    using t1 m by blast
  have 2: "sends (fst (main example_runtime example_credentials Constructed 1700000000 Delivered
      [quiet_world (ok_response scenario_B)])) =
     ''Bot starts operation'' #
     sends (fst (main_loop example_runtime example_credentials
       [quiet_world (ok_response scenario_B)] \<lparr>load = PInt 1700000000, prev_msg = []\<rparr>))"
    using t2 p h by blast
  have 3: "take 1 (requests (fst (main example_runtime example_credentials Constructed 1700000000
      Delivered [quiet_world (ok_response scenario_B)]))) =
      [if (1700000000::int) = 0 then PInt (clock_ns (quiet_world (ok_response scenario_B)))
       else PInt 1700000000]"
    using t2 p h by blast
  show ?thesis
    using 1 2 3 by (simp only: l) simp
qed

text \<open>
  C8 as stated fails: all three credentials are present, the constructor of the bot
  rejects the token, and the process ends without the startup notification.
\<close>

theorem bot_constructor_raises_before_send:
  "snd (check_tokens example_credentials) \<and>
   main example_runtime example_credentials (ConstructRaises (TelegramError ''Invalid token''))
      1700000000 Delivered [quiet_world (ok_response scenario_B)] =
     ([Log INFO ''check for all tokens availability''],
      Inl (Uncaught (TelegramError ''Invalid token'')))"
  by (simp add: main_def startup_def check_tokens_def example_credentials_def)

end
